theory Spec2Isabelle
  imports Main "HOL-Library.Word" "HOL-Library.Product_Lexorder" "HOL-Library.Multiset"
begin

section \<open>Python values, exceptions and the library functions the module calls\<close>

text \<open>
  A fragment of the Python values a task can hand to \<open>XCom.set\<close>. \<open>PyObject c\<close> is an
  instance of a class \<open>c\<close> that is none of the others nor a subclass of them: a set, a
  datetime, an instance of a class of the user. Equality of HOL terms is finer than
  Python's \<open>==\<close> on booleans against integers, and agrees with it on the shapes used
  below: a tuple is never equal to a list.
\<close>

datatype pyval =
    PyNone
  | PyBool bool
  | PyInt int
  | PyStr string
  | PyList "pyval list"
  | PyTuple "pyval list"
  | PyObject string

type_synonym bytes = "8 word list"

text \<open>
  Exception classes, with the superclasses that the \<open>except\<close> clauses of the module
  can observe. \<open>NotRecorded\<close> is no Python class: the sample library at the end of the
  definitions answers with it outside the inputs it records.
\<close>

datatype exc_class =
    ValueError
  | UnicodeError
  | UnicodeDecodeError
  | UnicodeEncodeError
  | JSONDecodeError
  | TypeError
  | PickleError
  | PicklingError
  | UnpicklingError
  | OverflowError
  | NotRecorded

datatype pyexc = PyExc (exc_type: exc_class) (message: string)

fun bases :: "exc_class \<Rightarrow> exc_class list" where
  "bases UnicodeError = [ValueError]"
| "bases UnicodeDecodeError = [UnicodeError, ValueError]"
| "bases UnicodeEncodeError = [UnicodeError, ValueError]"
| "bases JSONDecodeError = [ValueError]"
| "bases PicklingError = [PickleError]"
| "bases UnpicklingError = [PickleError]"
| "bases c = []"

definition issubclass :: "exc_class \<Rightarrow> exc_class \<Rightarrow> bool" where
  "issubclass c d = (c = d \<or> d \<in> set (bases c))"

definition isinstance :: "pyexc \<Rightarrow> exc_class \<Rightarrow> bool" where
  "isinstance e c = issubclass (exc_type e) c"

text \<open>
  \<open>json\<close>, \<open>pickle\<close> and the UTF-8 codec are not code of this module: the model takes
  them as parameters, each returning its exception as a value.
\<close>

record pylib =
  json_dumps :: "pyval \<Rightarrow> pyexc + string"
  json_loads :: "string \<Rightarrow> pyexc + pyval"
  pickle_dumps :: "pyval \<Rightarrow> pyexc + bytes"
  pickle_loads :: "bytes \<Rightarrow> pyexc + pyval"
  str_encode :: "string \<Rightarrow> pyexc + bytes"
  bytes_decode :: "bytes \<Rightarrow> pyexc + string"

section \<open>The table and the session\<close>

text \<open>
  One row of table \<open>xcom\<close>. The payload type is a parameter: \<open>bytes\<close> at rest, a
  \<open>pyval\<close> once \<open>init_on_load\<close> has run on a loaded instance. Instants are integers.
  Column \<open>key\<close> is nullable, the others are not.
\<close>

record 'v xcom =
  xcom_id :: nat
  xcom_key :: "string option"
  xcom_value :: 'v
  xcom_timestamp :: int
  xcom_execution_date :: int
  xcom_task_id :: string
  xcom_dag_id :: string

definition with_value :: "'a xcom \<Rightarrow> 'b \<Rightarrow> 'b xcom" where
  "with_value r v =
     \<lparr>xcom_id = xcom_id r, xcom_key = xcom_key r, xcom_value = v,
      xcom_timestamp = xcom_timestamp r, xcom_execution_date = xcom_execution_date r,
      xcom_task_id = xcom_task_id r, xcom_dag_id = xcom_dag_id r\<rparr>"

text \<open>What \<open>XCom(key=..., value=..., execution_date=..., task_id=..., dag_id=...)\<close> holds
  before it is flushed: no id and no timestamp yet.\<close>

record new_xcom =
  new_key :: "string option"
  new_value :: bytes
  new_execution_date :: int
  new_task_id :: string
  new_dag_id :: string

text \<open>
  The session with the database behind it: the rows of the table, the next value of the
  autoincrement key, the instances added and the ids of the instances marked deleted that
  are not flushed yet, and the lines written to the error log. The database is SQLite,
  the engine of Airflow's default configuration.
  Every method takes the session it works on and returns it with its result; the decorator
  \<open>provide_session\<close>, which opens one when the caller passes none, is outside this model.
  Airflow's sessions do not flush before a query. What the module reads from its
  surroundings is a parameter of each method: \<open>enable_pickling\<close> is the value of
  \<open>core.enable_xcom_pickling\<close> at the call, \<open>now\<close> the reading of \<open>timezone.utcnow\<close> at the
  flush of an insert.
\<close>

record session =
  xcom_table :: "bytes xcom list"
  next_id :: nat
  session_new :: "new_xcom list"
  session_deleted :: "nat list"
  error_log :: "string list"

definition session_expunge_all :: "session \<Rightarrow> session" where
  "session_expunge_all st = st\<lparr>session_new := [], session_deleted := []\<rparr>"

definition session_add :: "new_xcom \<Rightarrow> session \<Rightarrow> session" where
  "session_add n st = st\<lparr>session_new := session_new st @ [n]\<rparr>"

definition session_delete :: "'v xcom \<Rightarrow> session \<Rightarrow> session" where
  "session_delete x st = st\<lparr>session_deleted := session_deleted st @ [xcom_id x]\<rparr>"

text \<open>The INSERT of one added instance: the id is the next autoincrement value and
  \<open>timestamp\<close> takes its default, the clock reading \<open>now\<close>.\<close>

definition insert_row :: "int \<Rightarrow> new_xcom \<Rightarrow> session \<Rightarrow> session" where
  "insert_row now n st =
     st\<lparr>xcom_table := xcom_table st @
            [\<lparr>xcom_id = next_id st, xcom_key = new_key n, xcom_value = new_value n,
              xcom_timestamp = now, xcom_execution_date = new_execution_date n,
              xcom_task_id = new_task_id n, xcom_dag_id = new_dag_id n\<rparr>],
        next_id := Suc (next_id st)\<rparr>"

text \<open>\<open>session.commit()\<close>: flush the added instances, then the deleted ones.\<close>

definition session_commit :: "int \<Rightarrow> session \<Rightarrow> session" where
  "session_commit now st =
     (let st1 = fold (insert_row now) (session_new st) st
      in st1\<lparr>xcom_table := filter (\<lambda>r. xcom_id r \<notin> set (session_deleted st)) (xcom_table st1),
             session_new := [], session_deleted := []\<rparr>)"

text \<open>\<open>session.query(cls).filter(...).delete()\<close>: one DELETE statement, run at once.\<close>

definition query_delete :: "(bytes xcom \<Rightarrow> bool) \<Rightarrow> session \<Rightarrow> session" where
  "query_delete P st = st\<lparr>xcom_table := filter (\<lambda>r. \<not> P r) (xcom_table st)\<rparr>"

definition sql_and :: "('a \<Rightarrow> bool) list \<Rightarrow> 'a \<Rightarrow> bool" where
  "sql_and filters r = list_all (\<lambda>f. f r) filters"

text \<open>
  \<open>order_by(cls.execution_date.desc(), cls.timestamp.desc())\<close>. SQL leaves the order of
  rows that agree on both columns open; the model keeps them in table order.
\<close>

definition desc_key :: "'v xcom \<Rightarrow> int \<times> int" where
  "desc_key r = (- xcom_execution_date r, - xcom_timestamp r)"

definition order_by_desc :: "'v xcom list \<Rightarrow> 'v xcom list" where
  "order_by_desc rs = sort_key desc_key rs"

definition query_first :: "'a list \<Rightarrow> 'a option" where
  "query_first xs = (case xs of [] \<Rightarrow> None | x # _ \<Rightarrow> Some x)"

text \<open>
  \<open>.limit(limit)\<close> hands the number to the database as it is, as a bound parameter of
  the statement. The SQLite driver takes a Python integer only if it fits a signed 64-bit
  integer and raises \<open>OverflowError\<close> otherwise. SQLite keeps that many rows for a count of
  zero or more, and reads a negative count as no bound.
\<close>

definition query_limit :: "int \<Rightarrow> 'a list \<Rightarrow> pyexc + 'a list" where
  "query_limit n xs =
     (if n < - (2 ^ 63) \<or> 2 ^ 63 \<le> n then
        Inl (PyExc OverflowError ''Python int too large to convert to SQLite INTEGER'')
      else if 0 \<le> n then Inr (take (nat n) xs)
      else Inr xs)"

section \<open>Class XCom\<close>

subsection \<open>init_on_load\<close>

definition XCom_init_on_load :: "pylib \<Rightarrow> bool \<Rightarrow> bytes xcom \<Rightarrow> pyexc + pyval xcom" where
  "XCom_init_on_load lib enable_pickling self =
     (if enable_pickling then
        (case pickle_loads lib (xcom_value self) of
           Inl e \<Rightarrow> Inl e
         | Inr v \<Rightarrow> Inr (with_value self v))
      else
        (case (case bytes_decode lib (xcom_value self) of
                 Inl e \<Rightarrow> Inl e
               | Inr t \<Rightarrow> json_loads lib t) of
           Inr v \<Rightarrow> Inr (with_value self v)
         | Inl e \<Rightarrow>
             if isinstance e UnicodeEncodeError \<or> isinstance e ValueError then
               (case pickle_loads lib (xcom_value self) of
                  Inl e' \<Rightarrow> Inl e'
                | Inr v \<Rightarrow> Inr (with_value self v))
             else Inl e))"

subsection \<open>set\<close>

definition set_error_message :: string where
  "set_error_message =
     ''Could not serialize the XCOM value into JSON. If you are using pickles instead of JSON for XCOM, then you need to enable pickle support for XCOM in your airflow config.''"

text \<open>Lines 82 to 94: the payload, or the exception, and the lines logged on the way.\<close>

definition set_serialize :: "pylib \<Rightarrow> bool \<Rightarrow> pyval \<Rightarrow> (pyexc + bytes) \<times> string list" where
  "set_serialize lib enable_pickling value =
     (if enable_pickling then (pickle_dumps lib value, [])
      else
        (case (case json_dumps lib value of
                 Inl e \<Rightarrow> Inl e
               | Inr t \<Rightarrow> str_encode lib t) of
           Inr b \<Rightarrow> (Inr b, [])
         | Inl e \<Rightarrow>
             if isinstance e ValueError then (Inl e, [set_error_message])
             else (Inl e, [])))"

definition XCom_set ::
  "pylib \<Rightarrow> bool \<Rightarrow> int \<Rightarrow> string option \<Rightarrow> pyval \<Rightarrow> int \<Rightarrow> string \<Rightarrow> string \<Rightarrow> session
     \<Rightarrow> (pyexc + unit) \<times> session" where
  "XCom_set lib enable_pickling now key value execution_date task_id dag_id st =
     (let st1 = session_expunge_all st;
          (enc, msgs) = set_serialize lib enable_pickling value;
          st2 = st1\<lparr>error_log := error_log st1 @ msgs\<rparr>
      in case enc of
           Inl e \<Rightarrow> (Inl e, st2)
         | Inr b \<Rightarrow>
             (let st3 = query_delete
                          (\<lambda>r. xcom_key r = key \<and> xcom_execution_date r = execution_date \<and>
                               xcom_task_id r = task_id \<and> xcom_dag_id r = dag_id) st2;
                  st4 = session_commit now st3;
                  st5 = session_add
                          \<lparr>new_key = key, new_value = b, new_execution_date = execution_date,
                           new_task_id = task_id, new_dag_id = dag_id\<rparr> st4;
                  st6 = session_commit now st5
              in (Inr (), st6)))"

subsection \<open>get_one\<close>

text \<open>Python's truth value of an optional string argument: \<open>None\<close> and \<open>''\<close> are false.\<close>

definition truthy_str :: "string option \<Rightarrow> bool" where
  "truthy_str s = (case s of None \<Rightarrow> False | Some t \<Rightarrow> t \<noteq> [])"

text \<open>What a call filters on for an argument: the argument when it is true, nothing
  when it is \<open>None\<close> or empty.\<close>

definition effective_str :: "string option \<Rightarrow> string option" where
  "effective_str s = (if truthy_str s then s else None)"

definition get_one_filters ::
  "int \<Rightarrow> string option \<Rightarrow> string option \<Rightarrow> string option \<Rightarrow> bool \<Rightarrow> ('v xcom \<Rightarrow> bool) list" where
  "get_one_filters execution_date key task_id dag_id include_prior_dates =
     (if truthy_str key then [\<lambda>r. xcom_key r = key] else []) @
     (if truthy_str task_id then [\<lambda>r. Some (xcom_task_id r) = task_id] else []) @
     (if truthy_str dag_id then [\<lambda>r. Some (xcom_dag_id r) = dag_id] else []) @
     (if include_prior_dates then [\<lambda>r. xcom_execution_date r \<le> execution_date]
      else [\<lambda>r. xcom_execution_date r = execution_date])"

text \<open>The rows of \<open>query\<close> in their order; \<open>query(cls.value)\<close> keeps column \<open>value\<close>
  of each, which the model reads off the row where the source reads \<open>result.value\<close>.\<close>

definition get_one_query ::
  "int \<Rightarrow> string option \<Rightarrow> string option \<Rightarrow> string option \<Rightarrow> bool \<Rightarrow> session \<Rightarrow> bytes xcom list" where
  "get_one_query execution_date key task_id dag_id include_prior_dates st =
     order_by_desc
       (filter (sql_and (get_one_filters execution_date key task_id dag_id include_prior_dates))
          (xcom_table st))"

definition get_one_error_message :: string where
  "get_one_error_message =
     ''Could not deserialize the XCOM value from JSON. If you are using pickles instead of JSON for XCOM, then you need to enable pickle support for XCOM in your airflow config.''"

text \<open>Lines 148 to 160.\<close>

definition get_one_deserialize :: "pylib \<Rightarrow> bool \<Rightarrow> bytes \<Rightarrow> (pyexc + pyval) \<times> string list" where
  "get_one_deserialize lib enable_pickling b =
     (if enable_pickling then (pickle_loads lib b, [])
      else
        (case (case bytes_decode lib b of
                 Inl e \<Rightarrow> Inl e
               | Inr t \<Rightarrow> json_loads lib t) of
           Inr v \<Rightarrow> (Inr v, [])
         | Inl e \<Rightarrow>
             if isinstance e ValueError then (Inl e, [get_one_error_message])
             else (Inl e, [])))"

text \<open>A call that finds no row falls off the end of the function and returns \<open>None\<close>.\<close>

definition XCom_get_one ::
  "pylib \<Rightarrow> bool \<Rightarrow> int \<Rightarrow> string option \<Rightarrow> string option \<Rightarrow> string option \<Rightarrow> bool \<Rightarrow> session
     \<Rightarrow> (pyexc + pyval) \<times> session" where
  "XCom_get_one lib enable_pickling execution_date key task_id dag_id include_prior_dates st =
     (case query_first (get_one_query execution_date key task_id dag_id include_prior_dates st) of
        None \<Rightarrow> (Inr PyNone, st)
      | Some result \<Rightarrow>
          (let (res, msgs) = get_one_deserialize lib enable_pickling (xcom_value result)
           in (res, st\<lparr>error_log := error_log st @ msgs\<rparr>)))"

subsection \<open>get_many\<close>

text \<open>\<open>task_ids\<close> and \<open>dag_ids\<close>: one identifier or a collection of them.\<close>

datatype ids = IdStr string | IdSeq "string list"

definition truthy_ids :: "ids option \<Rightarrow> bool" where
  "truthy_ids x =
     (case x of None \<Rightarrow> False | Some (IdStr s) \<Rightarrow> s \<noteq> [] | Some (IdSeq l) \<Rightarrow> l \<noteq> [])"

definition effective_ids :: "ids option \<Rightarrow> ids option" where
  "effective_ids x = (if truthy_ids x then x else None)"

text \<open>Modelled from the spec: \<open>airflow.utils.helpers.as_tuple\<close> is not among the sources;
  the specification has \<open>task_ids\<close> and \<open>dag_ids\<close> accept a single identifier or a
  collection of identifiers, tested by membership.\<close>

definition as_tuple :: "ids \<Rightarrow> string list" where
  "as_tuple x = (case x of IdStr s \<Rightarrow> [s] | IdSeq l \<Rightarrow> l)"

definition get_many_filters ::
  "int \<Rightarrow> string option \<Rightarrow> ids option \<Rightarrow> ids option \<Rightarrow> bool \<Rightarrow> ('v xcom \<Rightarrow> bool) list" where
  "get_many_filters execution_date key task_ids dag_ids include_prior_dates =
     (if truthy_str key then [\<lambda>r. xcom_key r = key] else []) @
     (if truthy_ids task_ids then [\<lambda>r. xcom_task_id r \<in> set (as_tuple (the task_ids))] else []) @
     (if truthy_ids dag_ids then [\<lambda>r. xcom_dag_id r \<in> set (as_tuple (the dag_ids))] else []) @
     (if include_prior_dates then [\<lambda>r. xcom_execution_date r \<le> execution_date]
      else [\<lambda>r. xcom_execution_date r = execution_date])"

definition get_many_query ::
  "int \<Rightarrow> string option \<Rightarrow> ids option \<Rightarrow> ids option \<Rightarrow> bool \<Rightarrow> int \<Rightarrow> session
     \<Rightarrow> pyexc + bytes xcom list" where
  "get_many_query execution_date key task_ids dag_ids include_prior_dates limit st =
     query_limit limit
       (order_by_desc
          (filter (sql_and (get_many_filters execution_date key task_ids dag_ids include_prior_dates))
             (xcom_table st)))"

text \<open>\<open>query.all()\<close> builds an instance of every row it fetched and runs the reconstructor
  on each, in order; the first exception ends the call.\<close>

fun load_all :: "pylib \<Rightarrow> bool \<Rightarrow> bytes xcom list \<Rightarrow> pyexc + pyval xcom list" where
  "load_all lib enable_pickling [] = Inr []"
| "load_all lib enable_pickling (r # rs) =
     (case XCom_init_on_load lib enable_pickling r of
        Inl e \<Rightarrow> Inl e
      | Inr x \<Rightarrow>
          (case load_all lib enable_pickling rs of
             Inl e \<Rightarrow> Inl e
           | Inr xs \<Rightarrow> Inr (x # xs)))"

definition XCom_get_many ::
  "pylib \<Rightarrow> bool \<Rightarrow> int \<Rightarrow> string option \<Rightarrow> ids option \<Rightarrow> ids option \<Rightarrow> bool \<Rightarrow> int \<Rightarrow> session
     \<Rightarrow> pyexc + pyval xcom list" where
  "XCom_get_many lib enable_pickling execution_date key task_ids dag_ids include_prior_dates limit st =
     (case get_many_query execution_date key task_ids dag_ids include_prior_dates limit st of
        Inl e \<Rightarrow> Inl e
      | Inr rows \<Rightarrow> load_all lib enable_pickling rows)"

subsection \<open>delete\<close>

text \<open>An element handed to \<open>delete\<close>: an \<open>XCom\<close> instance, or an object of another class,
  of which the model keeps the class name.\<close>

datatype pyobj = is_XComObj: XComObj "pyval xcom" | OtherObj string

datatype xcoms_arg = Single "pyval xcom" | Collection "pyobj list"

fun delete_loop :: "pyobj list \<Rightarrow> session \<Rightarrow> (pyexc + unit) \<times> session" where
  "delete_loop [] st = (Inr (), st)"
| "delete_loop (OtherObj cls # xs) st =
     (Inl (PyExc TypeError (''Expected XCom; received '' @ cls)), st)"
| "delete_loop (XComObj x # xs) st = delete_loop xs (session_delete x st)"

definition XCom_delete :: "int \<Rightarrow> xcoms_arg \<Rightarrow> session \<Rightarrow> (pyexc + unit) \<times> session" where
  "XCom_delete now xcoms st =
     (let xs = (case xcoms of Single x \<Rightarrow> [XComObj x] | Collection l \<Rightarrow> l)
      in case delete_loop xs st of
           (Inl e, st') \<Rightarrow> (Inl e, st')
         | (Inr u, st') \<Rightarrow> (Inr (), session_commit now st'))"

section \<open>A sample library and sample tables for the closed examples\<close>

text \<open>
  \<open>cpython\<close> records what CPython 3.7 answers on the inputs the closed examples call it
  with: \<open>json.dumps\<close> and \<open>json.loads\<close> on the integers 1 and 2 and on the pair of them as
  a list and as a tuple, \<open>json.dumps\<close> on an instance of a class it cannot serialise,
  \<open>pickle.dumps\<close> (protocol 3) and \<open>pickle.loads\<close> on the integers 1 and 2 and on the
  tuple of them, and the UTF-8
  codec on ASCII text and on bytes whose first byte beyond ASCII cannot start a character.
  Every other input is answered with \<open>NotRecorded\<close>, which says nothing about CPython;
  no statement below depends on such an answer.
\<close>

definition not_recorded :: "pyexc + 'a" where
  "not_recorded = Inl (PyExc NotRecorded [])"

definition cpython_json_dumps :: "pyval \<Rightarrow> pyexc + string" where
  "cpython_json_dumps v =
     (case v of
        PyInt n \<Rightarrow> if n = 1 then Inr ''1'' else if n = 2 then Inr ''2'' else not_recorded
      | PyList xs \<Rightarrow> if xs = [PyInt 1, PyInt 2] then Inr ''[1, 2]'' else not_recorded
      | PyTuple xs \<Rightarrow> if xs = [PyInt 1, PyInt 2] then Inr ''[1, 2]'' else not_recorded
      | PyObject cls \<Rightarrow>
          Inl (PyExc TypeError (''Object of type '' @ cls @ '' is not JSON serializable''))
      | _ \<Rightarrow> not_recorded)"

definition cpython_json_loads :: "string \<Rightarrow> pyexc + pyval" where
  "cpython_json_loads t =
     (if t = ''1'' then Inr (PyInt 1)
      else if t = ''2'' then Inr (PyInt 2)
      else if t = ''[1, 2]'' then Inr (PyList [PyInt 1, PyInt 2])
      else not_recorded)"

definition cpython_pickle_dumps :: "pyval \<Rightarrow> pyexc + bytes" where
  "cpython_pickle_dumps v =
     (case v of
        PyInt n \<Rightarrow>
          if n = 1 then Inr [0x80, 0x03, 0x4B, 0x01, 0x2E]
          else if n = 2 then Inr [0x80, 0x03, 0x4B, 0x02, 0x2E]
          else not_recorded
      | PyTuple xs \<Rightarrow>
          if xs = [PyInt 1, PyInt 2]
          then Inr [0x80, 0x03, 0x4B, 0x01, 0x4B, 0x02, 0x86, 0x71, 0x00, 0x2E]
          else not_recorded
      | _ \<Rightarrow> not_recorded)"

definition cpython_pickle_loads :: "bytes \<Rightarrow> pyexc + pyval" where
  "cpython_pickle_loads b =
     (if b = [0x80, 0x03, 0x4B, 0x01, 0x2E] then Inr (PyInt 1)
      else if b = [0x80, 0x03, 0x4B, 0x02, 0x2E] then Inr (PyInt 2)
      else if b = [0x80, 0x03, 0x4B, 0x01, 0x4B, 0x02, 0x86, 0x71, 0x00, 0x2E]
      then Inr (PyTuple [PyInt 1, PyInt 2])
      else not_recorded)"

definition cpython_str_encode :: "string \<Rightarrow> pyexc + bytes" where
  "cpython_str_encode s =
     (if list_all (\<lambda>c. (of_char c :: nat) < 128) s
      then Inr (map (\<lambda>c. of_nat (of_char c)) s)
      else not_recorded)"

fun cpython_bytes_decode :: "bytes \<Rightarrow> pyexc + string" where
  "cpython_bytes_decode [] = Inr []"
| "cpython_bytes_decode (b # bs) =
     (if b < 0x80 then
        (case cpython_bytes_decode bs of
           Inl e \<Rightarrow> Inl e
         | Inr s \<Rightarrow> Inr (char_of (unat b) # s))
      else if b < 0xC0 then
        Inl (PyExc UnicodeDecodeError ''invalid start byte'')
      else not_recorded)"

definition cpython :: pylib where
  "cpython =
     \<lparr>json_dumps = cpython_json_dumps, json_loads = cpython_json_loads,
      pickle_dumps = cpython_pickle_dumps, pickle_loads = cpython_pickle_loads,
      str_encode = cpython_str_encode, bytes_decode = cpython_bytes_decode\<rparr>"

definition empty_session :: session where
  "empty_session =
     \<lparr>xcom_table = [], next_id = 1, session_new = [], session_deleted = [],
      error_log = []\<rparr>"

definition sample_row :: "nat \<Rightarrow> string \<Rightarrow> 'v \<Rightarrow> int \<Rightarrow> int \<Rightarrow> 'v xcom" where
  "sample_row i k b ts ed =
     \<lparr>xcom_id = i, xcom_key = Some k, xcom_value = b, xcom_timestamp = ts,
      xcom_execution_date = ed, xcom_task_id = ''t1'', xcom_dag_id = ''d1''\<rparr>"

definition sample_table :: "bytes xcom list" where
  "sample_table =
     [sample_row 1 ''a'' [0x31] 100 3,
      sample_row 2 ''a'' [0x32] 101 4,
      sample_row 3 ''a'' [0x31] 102 5,
      sample_row 4 ''a'' [0x32] 103 5,
      sample_row 5 ''b'' [0x5B, 0x31, 0x2C, 0x20, 0x32, 0x5D] 104 5]"

definition sample_session :: session where
  "sample_session =
     \<lparr>xcom_table = sample_table, next_id = 6, session_new = [], session_deleted = [],
      error_log = []\<rparr>"

text \<open>A second table, whose rows differ in key, task and pipeline.\<close>

definition mixed_row ::
  "nat \<Rightarrow> string \<Rightarrow> string \<Rightarrow> string \<Rightarrow> 'v \<Rightarrow> int \<Rightarrow> 'v xcom" where
  "mixed_row i k t d b ts =
     \<lparr>xcom_id = i, xcom_key = Some k, xcom_value = b, xcom_timestamp = ts,
      xcom_execution_date = 5, xcom_task_id = t, xcom_dag_id = d\<rparr>"

definition mixed_table :: "bytes xcom list" where
  "mixed_table =
     [mixed_row 1 ''a'' ''t1'' ''d1'' [0x31] 100,
      mixed_row 2 ''b'' ''t2'' ''d1'' [0x32] 101,
      mixed_row 3 ''a'' ''t1'' ''d2'' [0x31] 102]"

definition mixed_session :: session where
  "mixed_session =
     \<lparr>xcom_table = mixed_table, next_id = 4, session_new = [], session_deleted = [],
      error_log = []\<rparr>"

section \<open>The specification's words, for comparison with the code\<close>

text \<open>Ordered by \<open>execution_date\<close> descending, then \<open>timestamp\<close> descending: \<open>a\<close> may stand
  before \<open>b\<close>.\<close>

definition spec_precedes :: "'v xcom \<Rightarrow> 'w xcom \<Rightarrow> bool" where
  "spec_precedes a b =
     (xcom_execution_date b < xcom_execution_date a \<or>
      (xcom_execution_date b = xcom_execution_date a \<and> xcom_timestamp b \<le> xcom_timestamp a))"

text \<open>The execution-date filter: exact, or this run and any earlier one.\<close>

definition spec_date_match :: "int \<Rightarrow> bool \<Rightarrow> 'v xcom \<Rightarrow> bool" where
  "spec_date_match execution_date include_prior_dates r =
     (if include_prior_dates then xcom_execution_date r \<le> execution_date
      else xcom_execution_date r = execution_date)"

text \<open>
  The conjunction of the filters that are provided, for \<open>read_one\<close> and for \<open>read_many\<close>:
  a filter that is provided narrows the candidates, by equality or, for \<open>task_ids\<close> and
  \<open>dag_ids\<close>, by membership; a filter that is omitted imposes no constraint.
\<close>

definition spec_match_one ::
  "int \<Rightarrow> string option \<Rightarrow> string option \<Rightarrow> string option \<Rightarrow> bool \<Rightarrow> 'v xcom \<Rightarrow> bool" where
  "spec_match_one execution_date key task_id dag_id include_prior_dates r =
     ((case key of None \<Rightarrow> True | Some k \<Rightarrow> xcom_key r = Some k) \<and>
      (case task_id of None \<Rightarrow> True | Some t \<Rightarrow> xcom_task_id r = t) \<and>
      (case dag_id of None \<Rightarrow> True | Some d \<Rightarrow> xcom_dag_id r = d) \<and>
      spec_date_match execution_date include_prior_dates r)"

definition spec_match_many ::
  "int \<Rightarrow> string option \<Rightarrow> ids option \<Rightarrow> ids option \<Rightarrow> bool \<Rightarrow> 'v xcom \<Rightarrow> bool" where
  "spec_match_many execution_date key task_ids dag_ids include_prior_dates r =
     ((case key of None \<Rightarrow> True | Some k \<Rightarrow> xcom_key r = Some k) \<and>
      (case task_ids of None \<Rightarrow> True | Some i \<Rightarrow> xcom_task_id r \<in> set (as_tuple i)) \<and>
      (case dag_ids of None \<Rightarrow> True | Some i \<Rightarrow> xcom_dag_id r \<in> set (as_tuple i)) \<and>
      spec_date_match execution_date include_prior_dates r)"

text \<open>The natural key of a record.\<close>

definition natural_key :: "string option \<Rightarrow> int \<Rightarrow> string \<Rightarrow> string \<Rightarrow> 'v xcom \<Rightarrow> bool" where
  "natural_key key execution_date task_id dag_id r =
     (xcom_key r = key \<and> xcom_execution_date r = execution_date \<and>
      xcom_task_id r = task_id \<and> xcom_dag_id r = dag_id)"

section \<open>Auxiliary facts\<close>

lemma session_commit_idle:
  "session_new st = [] \<Longrightarrow> session_deleted st = [] \<Longrightarrow> session_commit now st = st"
  by (simp add: session_commit_def)

lemma XCom_set_failure:
  assumes "fst (set_serialize lib enable_pickling value) = Inl e"
  shows "XCom_set lib enable_pickling now key value execution_date task_id dag_id st =
           (Inl e, (session_expunge_all st)
                     \<lparr>error_log := error_log st @ snd (set_serialize lib enable_pickling value)\<rparr>)"
  using assms
  by (cases "set_serialize lib enable_pickling value")
     (simp add: XCom_set_def session_expunge_all_def)

lemma XCom_set_success:
  assumes "fst (set_serialize lib enable_pickling value) = Inr b"
  shows "fst (XCom_set lib enable_pickling now key value execution_date task_id dag_id st) = Inr ()"
    and "xcom_table (snd (XCom_set lib enable_pickling now key value execution_date task_id dag_id st)) =
           filter (\<lambda>r. \<not> natural_key key execution_date task_id dag_id r) (xcom_table st) @
           [\<lparr>xcom_id = next_id st, xcom_key = key, xcom_value = b, xcom_timestamp = now,
             xcom_execution_date = execution_date, xcom_task_id = task_id, xcom_dag_id = dag_id\<rparr>]"
    and "next_id (snd (XCom_set lib enable_pickling now key value execution_date task_id dag_id st)) =
           Suc (next_id st)"
  using assms
  by (cases "set_serialize lib enable_pickling value";
      simp add: XCom_set_def session_expunge_all_def query_delete_def session_commit_def
        session_add_def insert_row_def Let_def natural_key_def)+

lemma set_serialize_logged:
  assumes "fst (set_serialize lib False value) = Inl e"
  shows "snd (set_serialize lib False value) =
           (if isinstance e ValueError then [set_error_message] else [])"
  using assms
  by (auto simp add: set_serialize_def split: sum.splits if_splits)

lemma get_one_filters_spec:
  "sql_and (get_one_filters ed key task_id dag_id ip) r =
     spec_match_one ed (effective_str key) (effective_str task_id) (effective_str dag_id) ip r"
  by (auto simp add: sql_and_def get_one_filters_def spec_match_one_def spec_date_match_def
        effective_str_def truthy_str_def split: option.splits)

lemma get_many_filters_spec:
  "sql_and (get_many_filters ed key task_ids dag_ids ip) r =
     spec_match_many ed (effective_str key) (effective_ids task_ids) (effective_ids dag_ids) ip r"
  by (auto simp add: sql_and_def get_many_filters_def spec_match_many_def spec_date_match_def
        effective_str_def effective_ids_def truthy_str_def truthy_ids_def split: option.splits)

lemma desc_key_le: "(desc_key a \<le> desc_key b) = spec_precedes a b"
  by (auto simp add: desc_key_def spec_precedes_def less_eq_prod_def)

lemma order_by_desc_sorted: "sorted_wrt spec_precedes (order_by_desc rs)"
proof -
  have "sorted (map desc_key (sort_key desc_key rs))"
    by (rule sorted_sort_key)
  then show ?thesis
    by (simp add: order_by_desc_def sorted_map desc_key_le)
qed

lemma order_by_desc_set: "set (order_by_desc rs) = set rs"
  by (simp add: order_by_desc_def)

lemma order_by_desc_mset: "mset (order_by_desc rs) = mset rs"
  by (simp add: order_by_desc_def)

lemma order_by_desc_length: "length (order_by_desc rs) = length rs"
  by (simp add: order_by_desc_def)

lemma get_one_query_set:
  "set (get_one_query ed key task_id dag_id ip st) =
     {r \<in> set (xcom_table st).
        spec_match_one ed (effective_str key) (effective_str task_id) (effective_str dag_id) ip r}"
  by (auto simp add: get_one_query_def order_by_desc_set get_one_filters_spec)

lemma init_on_load_fields:
  "XCom_init_on_load lib f r = Inr x \<Longrightarrow> x = with_value r (xcom_value x)"
  by (auto simp add: XCom_init_on_load_def with_value_def split: if_splits sum.splits)

lemma load_all_rel:
  "load_all lib f rows = Inr xs \<Longrightarrow>
     list_all2 (\<lambda>r x. XCom_init_on_load lib f r = Inr x) rows xs"
  by (induction rows arbitrary: xs) (auto split: sum.splits)

lemma load_all_total:
  "list_all (\<lambda>r. \<exists>x. XCom_init_on_load lib f r = Inr x) rows \<Longrightarrow>
     \<exists>xs. load_all lib f rows = Inr xs"
  by (induction rows) (auto split: sum.splits)

lemma delete_loop_table: "xcom_table (snd (delete_loop xs st)) = xcom_table st"
  by (induction xs st rule: delete_loop.induct) (simp_all add: session_delete_def)

lemma XCom_delete_raises:
  assumes "\<not> list_all is_XComObj xs"
  shows "\<exists>cls. find (\<lambda>x. \<not> is_XComObj x) xs = Some (OtherObj cls) \<and>
           fst (XCom_delete now (Collection xs) st) =
             Inl (PyExc TypeError (''Expected XCom; received '' @ cls)) \<and>
           xcom_table (snd (XCom_delete now (Collection xs) st)) = xcom_table st"
proof -
  have loop: "\<exists>cls. find (\<lambda>x. \<not> is_XComObj x) xs = Some (OtherObj cls) \<and>
           fst (delete_loop xs st) = Inl (PyExc TypeError (''Expected XCom; received '' @ cls))"
    using assms
    by (induction xs st rule: delete_loop.induct) simp_all
  then obtain cls where c: "find (\<lambda>x. \<not> is_XComObj x) xs = Some (OtherObj cls)"
    and e: "fst (delete_loop xs st) = Inl (PyExc TypeError (''Expected XCom; received '' @ cls))"
    by blast
  have t: "xcom_table (snd (delete_loop xs st)) = xcom_table st"
    by (rule delete_loop_table)
  show ?thesis
    using c e t
    by (cases "delete_loop xs st") (auto simp add: XCom_delete_def)
qed

lemma order_by_desc_single: "order_by_desc [r] = [r]"
  by (simp add: order_by_desc_def)

lemma fold_set_last:
  assumes "ws \<noteq> []"
  shows "fold (\<lambda>(f, x, t) s. snd (XCom_set lib f t key x ed task_id dag_id s)) ws st =
           snd (XCom_set lib (fst (last ws)) (snd (snd (last ws))) key (fst (snd (last ws)))
                  ed task_id dag_id
                  (fold (\<lambda>(f, x, t) s. snd (XCom_set lib f t key x ed task_id dag_id s))
                     (butlast ws) st))"
proof -
  have "ws = butlast ws @ [last ws]" using assms by simp
  then have "fold (\<lambda>(f, x, t) s. snd (XCom_set lib f t key x ed task_id dag_id s)) ws st =
     fold (\<lambda>(f, x, t) s. snd (XCom_set lib f t key x ed task_id dag_id s)) (butlast ws @ [last ws]) st"
    by simp
  also have "\<dots> = snd (XCom_set lib (fst (last ws)) (snd (snd (last ws))) key (fst (snd (last ws)))
                  ed task_id dag_id
                  (fold (\<lambda>(f, x, t) s. snd (XCom_set lib f t key x ed task_id dag_id s))
                     (butlast ws) st))"
    by (simp add: case_prod_beta)
  finally show ?thesis .
qed

lemma set_then_natural_key:
  assumes "fst (set_serialize lib f v) = Inr b"
  shows "filter (natural_key key ed task_id dag_id)
           (xcom_table (snd (XCom_set lib f now key v ed task_id dag_id st))) =
         [\<lparr>xcom_id = next_id st, xcom_key = key, xcom_value = b, xcom_timestamp = now,
           xcom_execution_date = ed, xcom_task_id = task_id, xcom_dag_id = dag_id\<rparr>]"
  by (simp add: XCom_set_success(2) [OF assms] natural_key_def)

lemma set_keeps_other_rows:
  "filter (\<lambda>r. \<not> natural_key key ed task_id dag_id r)
     (xcom_table (snd (XCom_set lib f now key v ed task_id dag_id st))) =
   filter (\<lambda>r. \<not> natural_key key ed task_id dag_id r) (xcom_table st)"
proof (cases "fst (set_serialize lib f v)")
  case (Inl e)
  then show ?thesis
    by (simp add: XCom_set_failure session_expunge_all_def)
next
  case (Inr b)
  then show ?thesis
    by (simp add: XCom_set_success(2) natural_key_def)
qed

lemma fold_set_keeps_other_rows:
  "filter (\<lambda>r. \<not> natural_key key ed task_id dag_id r)
     (xcom_table (fold (\<lambda>(f, x, t) s. snd (XCom_set lib f t key x ed task_id dag_id s)) ws st)) =
   filter (\<lambda>r. \<not> natural_key key ed task_id dag_id r) (xcom_table st)"
proof (induction ws arbitrary: st)
  case Nil
  then show ?case by simp
next
  case (Cons w ws)
  obtain f x t where w: "w = (f, x, t)" by (cases w)
  show ?case
    by (simp add: w Cons.IH set_keeps_other_rows)
qed

lemma get_one_exact_natural_key:
  assumes "key \<noteq> []" "task_id \<noteq> []" "dag_id \<noteq> []"
  shows "get_one_query ed (Some key) (Some task_id) (Some dag_id) False st =
           order_by_desc (filter (natural_key (Some key) ed task_id dag_id) (xcom_table st))"
proof -
  have "sql_and (get_one_filters ed (Some key) (Some task_id) (Some dag_id) False) =
          (natural_key (Some key) ed task_id dag_id :: bytes xcom \<Rightarrow> bool)"
    using assms
    by (auto simp add: fun_eq_iff get_one_filters_spec spec_match_one_def spec_date_match_def
          effective_str_def truthy_str_def natural_key_def)
  then show ?thesis by (simp add: get_one_query_def)
qed

lemma spec_precedes_refl: "spec_precedes r r"
  by (simp add: spec_precedes_def)

lemma spec_precedes_with_value:
  "spec_precedes (with_value a v) (with_value b w) = spec_precedes a b"
  by (simp add: spec_precedes_def with_value_def)

lemma init_on_load_precedes:
  assumes "XCom_init_on_load lib f a = Inr x" and "XCom_init_on_load lib f b = Inr y"
  shows "spec_precedes x y = spec_precedes a b"
proof -
  have "x = with_value a (xcom_value x)" and "y = with_value b (xcom_value y)"
    using assms by (auto dest: init_on_load_fields)
  then show ?thesis
    by (metis spec_precedes_with_value)
qed

lemma sorted_wrt_loaded:
  assumes "list_all2 (\<lambda>r x. XCom_init_on_load lib f r = Inr x) rows xs"
    and "sorted_wrt spec_precedes rows"
  shows "sorted_wrt spec_precedes xs"
proof -
  have len: "length rows = length xs" using assms(1) by (rule list_all2_lengthD)
  have "\<forall>i j. i < j \<longrightarrow> j < length xs \<longrightarrow> spec_precedes (xs ! i) (xs ! j)"
  proof (intro allI impI)
    fix i j assume ij: "i < j" "j < length xs"
    then have a: "XCom_init_on_load lib f (rows ! i) = Inr (xs ! i)"
      and b: "XCom_init_on_load lib f (rows ! j) = Inr (xs ! j)"
      using assms(1) len by (auto simp add: list_all2_conv_all_nth)
    have "spec_precedes (rows ! i) (rows ! j)"
      using assms(2) ij len by (simp add: sorted_wrt_iff_nth_less)
    then show "spec_precedes (xs ! i) (xs ! j)"
      using init_on_load_precedes [OF a b] by simp
  qed
  then show ?thesis by (simp add: sorted_wrt_iff_nth_less)
qed

lemma get_many_query_unfold:
  "get_many_query ed key task_ids dag_ids ip limit st =
     query_limit limit
       (order_by_desc
          (filter (spec_match_many ed (effective_str key) (effective_ids task_ids)
                     (effective_ids dag_ids) ip) (xcom_table st)))"
proof -
  have "sql_and (get_many_filters ed key task_ids dag_ids ip) =
         (spec_match_many ed (effective_str key) (effective_ids task_ids) (effective_ids dag_ids) ip
            :: bytes xcom \<Rightarrow> bool)"
    by (simp add: fun_eq_iff get_many_filters_spec)
  then show ?thesis
    by (simp add: get_many_query_def)
qed

lemma get_many_query_cases:
  "get_many_query ed key task_ids dag_ids ip limit st = Inr q \<Longrightarrow>
     q = take (nat limit)
           (order_by_desc
              (filter (spec_match_many ed (effective_str key) (effective_ids task_ids)
                         (effective_ids dag_ids) ip) (xcom_table st)))
     \<or> q = order_by_desc
              (filter (spec_match_many ed (effective_str key) (effective_ids task_ids)
                         (effective_ids dag_ids) ip) (xcom_table st))"
  by (auto simp add: get_many_query_unfold query_limit_def split: if_splits)

lemma get_many_query_nonneg:
  "0 \<le> limit \<Longrightarrow> limit < 2 ^ 63 \<Longrightarrow>
     get_many_query ed key task_ids dag_ids ip limit st =
       Inr (take (nat limit)
         (order_by_desc
            (filter (spec_match_many ed (effective_str key) (effective_ids task_ids)
                       (effective_ids dag_ids) ip) (xcom_table st))))"
  by (simp add: get_many_query_unfold query_limit_def)

lemma get_many_query_negative:
  "- (2 ^ 63) \<le> limit \<Longrightarrow> limit < 0 \<Longrightarrow>
     get_many_query ed key task_ids dag_ids ip limit st =
       Inr (order_by_desc
            (filter (spec_match_many ed (effective_str key) (effective_ids task_ids)
                       (effective_ids dag_ids) ip) (xcom_table st)))"
  by (simp add: get_many_query_unfold query_limit_def)

lemma get_many_query_overflow:
  "limit < - (2 ^ 63) \<or> 2 ^ 63 \<le> limit \<Longrightarrow>
     get_many_query ed key task_ids dag_ids ip limit st =
       Inl (PyExc OverflowError ''Python int too large to convert to SQLite INTEGER'')"
  by (simp add: get_many_query_unfold query_limit_def)

lemma get_many_query_sorted:
  assumes "get_many_query ed key task_ids dag_ids ip limit st = Inr q"
  shows "sorted_wrt spec_precedes q"
  using get_many_query_cases [OF assms] order_by_desc_sorted sorted_wrt_take
  by metis

lemma get_many_query_subset:
  assumes "get_many_query ed key task_ids dag_ids ip limit st = Inr q"
  shows "set q \<subseteq> {r \<in> set (xcom_table st).
           spec_match_many ed (effective_str key) (effective_ids task_ids)
             (effective_ids dag_ids) ip r}"
proof -
  have "set q \<subseteq> set (order_by_desc
          (filter (spec_match_many ed (effective_str key) (effective_ids task_ids)
                     (effective_ids dag_ids) ip) (xcom_table st)))"
    using get_many_query_cases [OF assms] by (auto dest: in_set_takeD)
  then show ?thesis by (auto simp add: order_by_desc_set)
qed

lemma get_many_query_all:
  assumes "int (length (xcom_table st)) \<le> limit \<or> limit < 0"
    and "- (2 ^ 63) \<le> limit" and "limit < 2 ^ 63"
  shows "get_many_query ed key task_ids dag_ids ip limit st =
       Inr (order_by_desc
            (filter (spec_match_many ed (effective_str key) (effective_ids task_ids)
                       (effective_ids dag_ids) ip) (xcom_table st)))"
proof (cases "limit < 0")
  case True
  then show ?thesis using assms(2) by (simp add: get_many_query_negative)
next
  case False
  let ?c = "filter (spec_match_many ed (effective_str key) (effective_ids task_ids)
                       (effective_ids dag_ids) ip) (xcom_table st)"
  have l: "int (length (xcom_table st)) \<le> limit" using False assms(1) by simp
  have "length ?c \<le> length (xcom_table st)"
    by (rule length_filter_le)
  with l have "length ?c \<le> nat limit"
    by linarith
  then have "take (nat limit) (order_by_desc ?c) = order_by_desc ?c"
    by (simp add: order_by_desc_length)
  then show ?thesis
    using False assms(3) get_many_query_nonneg [of limit ed key task_ids dag_ids ip st] by simp
qed

lemma XCom_get_many_rel:
  assumes "XCom_get_many lib f ed key task_ids dag_ids ip limit st = Inr rs"
  shows "\<exists>q. get_many_query ed key task_ids dag_ids ip limit st = Inr q \<and>
             list_all2 (\<lambda>r x. XCom_init_on_load lib f r = Inr x) q rs"
  using assms
  by (auto simp add: XCom_get_many_def split: sum.splits dest: load_all_rel)

lemma get_one_first:
  assumes "query_first (get_one_query ed key task_id dag_id ip st) = Some r"
  shows "r \<in> set (xcom_table st)"
    and "spec_match_one ed (effective_str key) (effective_str task_id) (effective_str dag_id) ip r"
    and "\<forall>r'\<in>set (xcom_table st). spec_match_one ed (effective_str key) (effective_str task_id) (effective_str dag_id) ip r' \<longrightarrow> spec_precedes r r'"
proof -
  obtain rest where q: "get_one_query ed key task_id dag_id ip st = r # rest"
    using assms by (auto simp add: query_first_def split: list.splits)
  have "r \<in> set (get_one_query ed key task_id dag_id ip st)" by (simp add: q)
  then show "r \<in> set (xcom_table st)" and "spec_match_one ed (effective_str key) (effective_str task_id) (effective_str dag_id) ip r"
    by (simp_all add: get_one_query_set)
  have s: "sorted_wrt spec_precedes (r # rest)"
    using order_by_desc_sorted [of "filter (sql_and (get_one_filters ed key task_id dag_id ip)) (xcom_table st)"]
    by (simp add: q [symmetric] get_one_query_def)
  show "\<forall>r'\<in>set (xcom_table st). spec_match_one ed (effective_str key) (effective_str task_id) (effective_str dag_id) ip r' \<longrightarrow> spec_precedes r r'"
  proof (intro ballI impI)
    fix r' assume "r' \<in> set (xcom_table st)" "spec_match_one ed (effective_str key) (effective_str task_id) (effective_str dag_id) ip r'"
    then have "r' \<in> set (r # rest)"
      using get_one_query_set [of ed key task_id dag_id ip st] by (simp add: q [symmetric])
    then show "spec_precedes r r'"
      using s spec_precedes_refl by auto
  qed
qed

lemma XCom_get_one_selected:
  assumes "query_first (get_one_query ed key task_id dag_id ip st) = Some r"
  shows "fst (XCom_get_one lib f ed key task_id dag_id ip st) =
           fst (get_one_deserialize lib f (xcom_value r))"
  using assms by (simp add: XCom_get_one_def case_prod_beta)

lemma XCom_get_one_absent:
  assumes "\<forall>r\<in>set (xcom_table st). \<not> spec_match_one ed (effective_str key) (effective_str task_id) (effective_str dag_id) ip r"
  shows "XCom_get_one lib f ed key task_id dag_id ip st = (Inr PyNone, st)"
proof -
  have "set (get_one_query ed key task_id dag_id ip st) = {}"
    using assms by (auto simp add: get_one_query_set)
  then show ?thesis by (simp add: XCom_get_one_def query_first_def)
qed

lemma in_loaded:
  assumes "list_all2 (\<lambda>r x. XCom_init_on_load lib f r = Inr x) q rs" and "r \<in> set q"
  shows "\<exists>x\<in>set rs. XCom_init_on_load lib f r = Inr x"
proof -
  obtain i where i: "i < length q" "q ! i = r"
    using assms(2) by (auto simp add: in_set_conv_nth)
  have "length q = length rs" using assms(1) by (rule list_all2_lengthD)
  moreover have "XCom_init_on_load lib f (q ! i) = Inr (rs ! i)"
    using assms(1) i(1) by (simp add: list_all2_conv_all_nth)
  ultimately show ?thesis
    using i by (metis nth_mem)
qed

lemma XCom_get_many_complete:
  assumes "int (length (xcom_table st)) \<le> limit \<or> limit < 0"
    and "- (2 ^ 63) \<le> limit" and "limit < 2 ^ 63"
    and "XCom_get_many lib f ed key task_ids dag_ids ip limit st = Inr rs"
    and "r \<in> set (xcom_table st)"
    and "spec_match_many ed (effective_str key) (effective_ids task_ids) (effective_ids dag_ids) ip r"
  shows "\<exists>x\<in>set rs. XCom_init_on_load lib f r = Inr x"
proof -
  obtain q where q: "get_many_query ed key task_ids dag_ids ip limit st = Inr q"
    and l: "list_all2 (\<lambda>r x. XCom_init_on_load lib f r = Inr x) q rs"
    using XCom_get_many_rel [OF assms(4)] by blast
  have "r \<in> set q"
    using q assms(5,6) get_many_query_all [OF assms(1,2,3), of ed key task_ids dag_ids ip]
    by (auto simp add: order_by_desc_set)
  with l show ?thesis by (rule in_loaded)
qed

lemma XCom_get_many_total:
  assumes "- (2 ^ 63) \<le> limit" and "limit < 2 ^ 63"
    and "list_all (\<lambda>r. \<exists>x. XCom_init_on_load lib f r = Inr x) (xcom_table st)"
  shows "\<exists>rs. XCom_get_many lib f ed key task_ids dag_ids ip limit st = Inr rs"
proof -
  have "\<exists>q. get_many_query ed key task_ids dag_ids ip limit st = Inr q"
    using assms(1,2) by (simp add: get_many_query_unfold query_limit_def)
  then obtain q where q: "get_many_query ed key task_ids dag_ids ip limit st = Inr q"
    by blast
  have "set q \<subseteq> set (xcom_table st)"
    using get_many_query_subset [OF q] by auto
  then have "list_all (\<lambda>r. \<exists>x. XCom_init_on_load lib f r = Inr x) q"
    using assms(3) by (auto simp add: list_all_iff)
  then show ?thesis
    using load_all_total [of lib f q] by (simp add: XCom_get_many_def q)
qed

lemma XCom_get_many_matches:
  assumes "XCom_get_many lib f ed key task_ids dag_ids ip limit st = Inr rs" and "x \<in> set rs"
  shows "spec_match_many ed (effective_str key) (effective_ids task_ids) (effective_ids dag_ids) ip x"
proof -
  obtain q where q: "get_many_query ed key task_ids dag_ids ip limit st = Inr q"
    and l: "list_all2 (\<lambda>r x. XCom_init_on_load lib f r = Inr x) q rs"
    using XCom_get_many_rel [OF assms(1)] by blast
  obtain i where i: "i < length rs" "x = rs ! i"
    using assms(2) by (auto simp add: in_set_conv_nth)
  have lq: "length q = length rs" using l by (rule list_all2_lengthD)
  have "XCom_init_on_load lib f (q ! i) = Inr (rs ! i)"
    using l i(1) by (simp add: list_all2_conv_all_nth)
  then obtain r where r: "r \<in> set q" and rx: "XCom_init_on_load lib f r = Inr x"
    using i lq by (metis nth_mem)
  have m: "spec_match_many ed (effective_str key) (effective_ids task_ids) (effective_ids dag_ids) ip r"
    using get_many_query_subset [OF q] r by auto
  have "x = with_value r (xcom_value x)" using rx by (rule init_on_load_fields)
  then have "xcom_key x = xcom_key r \<and> xcom_task_id x = xcom_task_id r \<and>
     xcom_dag_id x = xcom_dag_id r \<and> xcom_execution_date x = xcom_execution_date r"
    by (metis with_value_def xcom.select_convs(2,5,6,7))
  with m show ?thesis
    by (auto simp add: spec_match_many_def spec_date_match_def split: option.splits)
qed

section \<open>Facts of the sample library and the sample tables\<close>

lemma with_value_sample_row: "with_value (sample_row i k b ts ed) v = sample_row i k v ts ed"
  by (simp add: with_value_def sample_row_def)

lemma cpython_dumps_object:
  "set_serialize cpython False (PyObject ''set'') =
     (Inl (PyExc TypeError ''Object of type set is not JSON serializable''), [])"
  by (simp add: set_serialize_def cpython_def cpython_json_dumps_def isinstance_def issubclass_def)

lemma cpython_set_serialize_json:
  "set_serialize cpython False (PyInt 1) = (Inr [0x31], [])"
  "set_serialize cpython False (PyInt 2) = (Inr [0x32], [])"
  "set_serialize cpython False (PyTuple [PyInt 1, PyInt 2]) =
     (Inr [0x5B, 0x31, 0x2C, 0x20, 0x32, 0x5D], [])"
  by (simp_all add: set_serialize_def cpython_def cpython_json_dumps_def cpython_str_encode_def)

lemma cpython_set_serialize_pickle:
  "set_serialize cpython True (PyInt 1) = (Inr [0x80, 0x03, 0x4B, 0x01, 0x2E], [])"
  by (simp add: set_serialize_def cpython_def cpython_pickle_dumps_def)

lemma cpython_pickle_tuple:
  "set_serialize cpython True (PyTuple [PyInt 1, PyInt 2]) =
     (Inr [0x80, 0x03, 0x4B, 0x01, 0x4B, 0x02, 0x86, 0x71, 0x00, 0x2E], [])"
  "get_one_deserialize cpython True [0x80, 0x03, 0x4B, 0x01, 0x4B, 0x02, 0x86, 0x71, 0x00, 0x2E] =
     (Inr (PyTuple [PyInt 1, PyInt 2]), [])"
  by (simp_all add: set_serialize_def get_one_deserialize_def cpython_def cpython_pickle_dumps_def
        cpython_pickle_loads_def)

lemma cpython_get_one_deserialize_json:
  "get_one_deserialize cpython False [0x31] = (Inr (PyInt 1), [])"
  "get_one_deserialize cpython False [0x32] = (Inr (PyInt 2), [])"
  "get_one_deserialize cpython False [0x5B, 0x31, 0x2C, 0x20, 0x32, 0x5D] =
     (Inr (PyList [PyInt 1, PyInt 2]), [])"
  by (simp_all add: get_one_deserialize_def cpython_def cpython_json_loads_def char_of_eq_iff)

lemma cpython_get_one_deserialize_pickled:
  "get_one_deserialize cpython False [0x80, 0x03, 0x4B, 0x01, 0x2E] =
     (Inl (PyExc UnicodeDecodeError ''invalid start byte''), [get_one_error_message])"
  "get_one_deserialize cpython True [0x80, 0x03, 0x4B, 0x01, 0x2E] = (Inr (PyInt 1), [])"
  by (simp_all add: get_one_deserialize_def cpython_def cpython_pickle_loads_def
        isinstance_def issubclass_def)

lemma cpython_init_on_load_json:
  "XCom_init_on_load cpython False (sample_row i k [0x31] ts ed) = Inr (sample_row i k (PyInt 1) ts ed)"
  "XCom_init_on_load cpython False (sample_row i k [0x32] ts ed) = Inr (sample_row i k (PyInt 2) ts ed)"
  "XCom_init_on_load cpython False (sample_row i k [0x5B, 0x31, 0x2C, 0x20, 0x32, 0x5D] ts ed) =
     Inr (sample_row i k (PyList [PyInt 1, PyInt 2]) ts ed)"
  by (simp_all add: XCom_init_on_load_def with_value_def sample_row_def cpython_def
        cpython_json_loads_def char_of_eq_iff)

lemma sample_ordered:
  "order_by_desc sample_table =
     [sample_row 5 ''b'' [0x5B, 0x31, 0x2C, 0x20, 0x32, 0x5D] 104 5,
      sample_row 4 ''a'' [0x32] 103 5,
      sample_row 3 ''a'' [0x31] 102 5,
      sample_row 2 ''a'' [0x32] 101 4,
      sample_row 1 ''a'' [0x31] 100 3]"
  by (simp add: order_by_desc_def desc_key_def sample_table_def sample_row_def less_eq_prod_def)

lemma sample_prior_filter:
  "filter (sql_and (get_many_filters 5 None None None True)) sample_table = sample_table"
  by (simp add: get_many_filters_def truthy_str_def truthy_ids_def sql_and_def sample_table_def
        sample_row_def)

lemma sample_get_many_query_2:
  "get_many_query 5 None None None True 2 sample_session =
     Inr [sample_row 5 ''b'' [0x5B, 0x31, 0x2C, 0x20, 0x32, 0x5D] 104 5,
          sample_row 4 ''a'' [0x32] 103 5]"
  by (simp add: get_many_query_def sample_session_def sample_prior_filter sample_ordered
        query_limit_def)

lemma sample_get_many_2:
  "XCom_get_many cpython False 5 None None None True 2 sample_session =
     Inr [sample_row 5 ''b'' (PyList [PyInt 1, PyInt 2]) 104 5,
          sample_row 4 ''a'' (PyInt 2) 103 5]"
  by (simp add: XCom_get_many_def sample_get_many_query_2 cpython_init_on_load_json)

lemma sample_get_many_negative:
  "XCom_get_many cpython False 5 None None None True (- 1) sample_session =
     Inr [sample_row 5 ''b'' (PyList [PyInt 1, PyInt 2]) 104 5,
          sample_row 4 ''a'' (PyInt 2) 103 5,
          sample_row 3 ''a'' (PyInt 1) 102 5,
          sample_row 2 ''a'' (PyInt 2) 101 4,
          sample_row 1 ''a'' (PyInt 1) 100 3]"
  by (simp add: XCom_get_many_def get_many_query_def sample_session_def sample_prior_filter
        sample_ordered query_limit_def cpython_init_on_load_json)

lemma sample_get_many_key_a:
  "XCom_get_many cpython False 5 (Some ''a'') None None False 100 sample_session =
     Inr [sample_row 4 ''a'' (PyInt 2) 103 5, sample_row 3 ''a'' (PyInt 1) 102 5]"
proof -
  have "filter (sql_and (get_many_filters 5 (Some ''a'') None None False)) sample_table =
          [sample_row 3 ''a'' [0x31] 102 5, sample_row 4 ''a'' [0x32] 103 5]"
    by (simp add: get_many_filters_def truthy_str_def truthy_ids_def sql_and_def sample_table_def
          sample_row_def)
  moreover have "order_by_desc
          ([sample_row 3 ''a'' [0x31] 102 5, sample_row 4 ''a'' [0x32] 103 5] :: bytes xcom list) =
          [sample_row 4 ''a'' [0x32] 103 5, sample_row 3 ''a'' [0x31] 102 5]"
    by (simp add: order_by_desc_def desc_key_def sample_row_def less_eq_prod_def)
  ultimately show ?thesis
    by (simp add: XCom_get_many_def get_many_query_def sample_session_def query_limit_def
          cpython_init_on_load_json)
qed

lemma cpython_init_on_load_mixed:
  "XCom_init_on_load cpython False (mixed_row i k t d [0x31] ts) = Inr (mixed_row i k t d (PyInt 1) ts)"
  "XCom_init_on_load cpython False (mixed_row i k t d [0x32] ts) = Inr (mixed_row i k t d (PyInt 2) ts)"
  by (simp_all add: XCom_init_on_load_def with_value_def mixed_row_def cpython_def
        cpython_json_loads_def char_of_eq_iff)

lemma mixed_ordered:
  "order_by_desc mixed_table =
     [mixed_row 3 ''a'' ''t1'' ''d2'' [0x31] 102,
      mixed_row 2 ''b'' ''t2'' ''d1'' [0x32] 101,
      mixed_row 1 ''a'' ''t1'' ''d1'' [0x31] 100]"
  by (simp add: order_by_desc_def desc_key_def mixed_table_def mixed_row_def less_eq_prod_def)

lemma mixed_get_many_empty_filters:
  "XCom_get_many cpython False 5 (Some []) (Some (IdSeq [])) (Some (IdStr [])) False 100
     mixed_session =
     Inr [mixed_row 3 ''a'' ''t1'' ''d2'' (PyInt 1) 102,
          mixed_row 2 ''b'' ''t2'' ''d1'' (PyInt 2) 101,
          mixed_row 1 ''a'' ''t1'' ''d1'' (PyInt 1) 100]"
proof -
  have "filter (sql_and (get_many_filters 5 (Some []) (Some (IdSeq [])) (Some (IdStr [])) False))
          mixed_table = mixed_table"
    by (simp add: get_many_filters_def truthy_str_def truthy_ids_def sql_and_def mixed_table_def
          mixed_row_def)
  then show ?thesis
    by (simp add: XCom_get_many_def get_many_query_def mixed_session_def query_limit_def
          mixed_ordered cpython_init_on_load_mixed)
qed

lemma mixed_get_one_empty_filters:
  "fst (XCom_get_one cpython False 5 (Some ''b'') (Some []) (Some []) False mixed_session) =
     Inr (PyInt 2)"
proof -
  have "filter (sql_and (get_one_filters 5 (Some ''b'') (Some []) (Some []) False)) mixed_table =
          [mixed_row 2 ''b'' ''t2'' ''d1'' [0x32] 101]"
    by (simp add: get_one_filters_def truthy_str_def sql_and_def mixed_table_def mixed_row_def)
  then have "get_one_query 5 (Some ''b'') (Some []) (Some []) False mixed_session =
          [mixed_row 2 ''b'' ''t2'' ''d1'' [0x32] 101]"
    by (simp add: get_one_query_def mixed_session_def order_by_desc_def)
  then show ?thesis
    by (simp add: XCom_get_one_def query_first_def mixed_row_def cpython_get_one_deserialize_json)
qed

lemma sample_get_one_query_prior:
  "get_one_query 5 None None None True sample_session = order_by_desc sample_table"
proof -
  have "filter (sql_and (get_one_filters 5 None None None True)) sample_table = sample_table"
    by (simp add: get_one_filters_def truthy_str_def sql_and_def sample_table_def sample_row_def)
  then show ?thesis
    by (simp add: get_one_query_def sample_session_def)
qed

lemma sample_tuple_write:
  "xcom_table (snd (XCom_set cpython False 200 (Some ''a'') (PyTuple [PyInt 1, PyInt 2]) 5 ''t1'' ''d1''
      empty_session)) = [sample_row 1 ''a'' [0x5B, 0x31, 0x2C, 0x20, 0x32, 0x5D] 200 5]"
  by (simp add: XCom_set_success(2) cpython_set_serialize_json empty_session_def sample_row_def)

lemma sample_pickled_write:
  "xcom_table (snd (XCom_set cpython True 200 (Some ''a'') (PyInt 1) 5 ''t1'' ''d1''
      empty_session)) = [sample_row 1 ''a'' [0x80, 0x03, 0x4B, 0x01, 0x2E] 200 5]"
  by (simp add: XCom_set_success(2) cpython_set_serialize_pickle empty_session_def sample_row_def)

section \<open>The claims\<close>

text \<open>
  C1, as the code has it. Take a natural key whose \<open>key\<close>, \<open>task_id\<close> and \<open>dag_id\<close> are
  not empty, any session, and one or more calls of \<open>set\<close> with that natural key, each with
  its own value, clock reading and setting of \<open>enable_xcom_pickling\<close>. If the last call
  serialises its value \<open>v\<close> to a payload \<open>b\<close>, then the table holds exactly one row with
  that natural key, which carries \<open>b\<close> and the clock reading of that call, and \<open>get_one\<close>
  with that natural key and the exact execution date returns what its deserialisation
  makes of \<open>b\<close> under the setting in force at the read: the value \<open>v\<close> itself whenever
  \<open>b\<close> deserialises to \<open>v\<close>. The rows of other natural keys are as they were.
\<close>

theorem set_dedup_then_get_one:
  assumes "ws \<noteq> []" and "last ws = (wflag, v, now)"
    and "fst (set_serialize lib wflag v) = Inr b"
    and "key \<noteq> []" and "task_id \<noteq> []" and "dag_id \<noteq> []"
    and "st' = fold (\<lambda>(f, x, t) s. snd (XCom_set lib f t (Some key) x ed task_id dag_id s)) ws st"
  shows "(\<exists>i. filter (natural_key (Some key) ed task_id dag_id) (xcom_table st') =
            [\<lparr>xcom_id = i, xcom_key = Some key, xcom_value = b, xcom_timestamp = now,
              xcom_execution_date = ed, xcom_task_id = task_id, xcom_dag_id = dag_id\<rparr>]) \<and>
         length (filter (natural_key (Some key) ed task_id dag_id) (xcom_table st')) = 1 \<and>
         fst (XCom_get_one lib rflag ed (Some key) (Some task_id) (Some dag_id) False st') =
           fst (get_one_deserialize lib rflag b) \<and>
         (fst (get_one_deserialize lib rflag b) = Inr v \<longrightarrow>
            fst (XCom_get_one lib rflag ed (Some key) (Some task_id) (Some dag_id) False st') = Inr v) \<and>
         filter (\<lambda>r. \<not> natural_key (Some key) ed task_id dag_id r) (xcom_table st') =
           filter (\<lambda>r. \<not> natural_key (Some key) ed task_id dag_id r) (xcom_table st)"
proof -
  let ?prev = "fold (\<lambda>(f, x, t) s. snd (XCom_set lib f t (Some key) x ed task_id dag_id s))
                 (butlast ws) st"
  have st': "st' = snd (XCom_set lib wflag now (Some key) v ed task_id dag_id ?prev)"
    using fold_set_last [OF assms(1), of lib "Some key" ed task_id dag_id st] assms(2,7) by simp
  have rows: "filter (natural_key (Some key) ed task_id dag_id) (xcom_table st') =
         [\<lparr>xcom_id = next_id ?prev, xcom_key = Some key, xcom_value = b, xcom_timestamp = now,
           xcom_execution_date = ed, xcom_task_id = task_id, xcom_dag_id = dag_id\<rparr>]"
    unfolding st' by (rule set_then_natural_key [OF assms(3)])
  have q: "get_one_query ed (Some key) (Some task_id) (Some dag_id) False st' =
         [\<lparr>xcom_id = next_id ?prev, xcom_key = Some key, xcom_value = b, xcom_timestamp = now,
           xcom_execution_date = ed, xcom_task_id = task_id, xcom_dag_id = dag_id\<rparr>]"
    by (simp only: get_one_exact_natural_key [OF assms(4,5,6)] rows order_by_desc_single)
  have g: "fst (XCom_get_one lib rflag ed (Some key) (Some task_id) (Some dag_id) False st') =
          fst (get_one_deserialize lib rflag b)"
    by (simp add: XCom_get_one_def q query_first_def case_prod_beta)
  have others: "filter (\<lambda>r. \<not> natural_key (Some key) ed task_id dag_id r) (xcom_table st') =
           filter (\<lambda>r. \<not> natural_key (Some key) ed task_id dag_id r) (xcom_table st)"
    unfolding assms(7) by (rule fold_set_keeps_other_rows)
  show ?thesis
    using rows g others by simp
qed

text \<open>The sample table holds two rows with the natural key. After two writes, of 1 and
  then of 2, one row is left and \<open>get_one\<close> returns 2; after a write of the tuple \<open>(1, 2)\<close>
  one row is left and \<open>get_one\<close> returns the list \<open>[1, 2]\<close>.\<close>

theorem set_dedup_then_get_one_witness:
  "[(False, PyInt 1, 200::int), (False, PyInt 2, 201)] \<noteq> [] \<and>
   last [(False, PyInt 1, 200::int), (False, PyInt 2, 201)] = (False, PyInt 2, 201) \<and>
   fst (set_serialize cpython False (PyInt 2)) = Inr [0x32] \<and>
   length (filter (natural_key (Some ''a'') 5 ''t1'' ''d1'')
     (xcom_table (fold (\<lambda>(f, x, t) s. snd (XCom_set cpython f t (Some ''a'') x 5 ''t1'' ''d1'' s))
        [(False, PyInt 1, 200), (False, PyInt 2, 201)] sample_session))) = 1 \<and>
   fst (XCom_get_one cpython False 5 (Some ''a'') (Some ''t1'') (Some ''d1'') False
     (fold (\<lambda>(f, x, t) s. snd (XCom_set cpython f t (Some ''a'') x 5 ''t1'' ''d1'' s))
        [(False, PyInt 1, 200), (False, PyInt 2, 201)] sample_session)) = Inr (PyInt 2) \<and>
   fst (set_serialize cpython False (PyTuple [PyInt 1, PyInt 2])) =
     Inr [0x5B, 0x31, 0x2C, 0x20, 0x32, 0x5D] \<and>
   length (filter (natural_key (Some ''a'') 5 ''t1'' ''d1'')
     (xcom_table (fold (\<lambda>(f, x, t) s. snd (XCom_set cpython f t (Some ''a'') x 5 ''t1'' ''d1'' s))
        [(False, PyTuple [PyInt 1, PyInt 2], 200)] sample_session))) = 1 \<and>
   fst (XCom_get_one cpython False 5 (Some ''a'') (Some ''t1'') (Some ''d1'') False
     (fold (\<lambda>(f, x, t) s. snd (XCom_set cpython f t (Some ''a'') x 5 ''t1'' ''d1'' s))
        [(False, PyTuple [PyInt 1, PyInt 2], 200)] sample_session)) =
     Inr (PyList [PyInt 1, PyInt 2])"
proof -
  have n: "[(False, PyInt 1, 200::int), (False, PyInt 2, 201)] \<noteq> []" by simp
  have l: "last [(False, PyInt 1, 200::int), (False, PyInt 2, 201)] = (False, PyInt 2, 201)" by simp
  have e: "fst (set_serialize cpython False (PyInt 2)) = Inr [0x32]"
    by (simp add: cpython_set_serialize_json)
  have d: "fst (get_one_deserialize cpython False [0x32]) = Inr (PyInt 2)"
    by (simp add: cpython_get_one_deserialize_json)
  have n': "[(False, PyTuple [PyInt 1, PyInt 2], 200::int)] \<noteq> []" by simp
  have l': "last [(False, PyTuple [PyInt 1, PyInt 2], 200::int)] =
              (False, PyTuple [PyInt 1, PyInt 2], 200)" by simp
  have e': "fst (set_serialize cpython False (PyTuple [PyInt 1, PyInt 2])) =
              Inr [0x5B, 0x31, 0x2C, 0x20, 0x32, 0x5D]"
    by (simp add: cpython_set_serialize_json)
  have d': "fst (get_one_deserialize cpython False [0x5B, 0x31, 0x2C, 0x20, 0x32, 0x5D]) =
              Inr (PyList [PyInt 1, PyInt 2])"
    by (simp add: cpython_get_one_deserialize_json)
  have k: "''a'' \<noteq> []" "''t1'' \<noteq> []" "''d1'' \<noteq> []" by simp_all
  note A = set_dedup_then_get_one [OF n l e k refl, of 5 sample_session False]
  note B = set_dedup_then_get_one [OF n' l' e' k refl, of 5 sample_session False]
  have a: "fst (XCom_get_one cpython False 5 (Some ''a'') (Some ''t1'') (Some ''d1'') False
     (fold (\<lambda>(f, x, t) s. snd (XCom_set cpython f t (Some ''a'') x 5 ''t1'' ''d1'' s))
        [(False, PyInt 1, 200), (False, PyInt 2, 201)] sample_session)) = Inr (PyInt 2)"
    using A d by blast
  have b: "fst (XCom_get_one cpython False 5 (Some ''a'') (Some ''t1'') (Some ''d1'') False
     (fold (\<lambda>(f, x, t) s. snd (XCom_set cpython f t (Some ''a'') x 5 ''t1'' ''d1'' s))
        [(False, PyTuple [PyInt 1, PyInt 2], 200)] sample_session)) =
     Inr (PyList [PyInt 1, PyInt 2])"
    using B d' by metis
  show ?thesis
    using n l e e' a b A B by blast
qed

text \<open>
  C1 as stated fails where the value does not survive the round trip through the
  payload: with pickling off, \<open>set\<close> stores the tuple \<open>(1, 2)\<close> as the JSON text
  \<open>[1, 2]\<close>, and \<open>get_one\<close> returns the list \<open>[1, 2]\<close>, which is not the value written.
\<close>

theorem set_tuple_get_one_counterexample:
  "fst (XCom_set cpython False 200 (Some ''a'') (PyTuple [PyInt 1, PyInt 2]) 5 ''t1'' ''d1''
      empty_session) = Inr () \<and>
   fst (XCom_get_one cpython False 5 (Some ''a'') (Some ''t1'') (Some ''d1'') False
     (snd (XCom_set cpython False 200 (Some ''a'') (PyTuple [PyInt 1, PyInt 2]) 5 ''t1'' ''d1''
        empty_session))) = Inr (PyList [PyInt 1, PyInt 2]) \<and>
   fst (XCom_get_one cpython False 5 (Some ''a'') (Some ''t1'') (Some ''d1'') False
     (snd (XCom_set cpython False 200 (Some ''a'') (PyTuple [PyInt 1, PyInt 2]) 5 ''t1'' ''d1''
        empty_session))) \<noteq> Inr (PyTuple [PyInt 1, PyInt 2])"
proof -
  have w: "fst (XCom_set cpython False 200 (Some ''a'') (PyTuple [PyInt 1, PyInt 2]) 5 ''t1'' ''d1''
      empty_session) = Inr ()"
    by (simp add: XCom_set_success(1) cpython_set_serialize_json)
  have q: "get_one_query 5 (Some ''a'') (Some ''t1'') (Some ''d1'') False
     (snd (XCom_set cpython False 200 (Some ''a'') (PyTuple [PyInt 1, PyInt 2]) 5 ''t1'' ''d1''
        empty_session)) = [sample_row 1 ''a'' [0x5B, 0x31, 0x2C, 0x20, 0x32, 0x5D] 200 5]"
    by (simp add: get_one_query_def sample_tuple_write get_one_filters_def truthy_str_def
          sql_and_def sample_row_def order_by_desc_def)
  have g: "fst (XCom_get_one cpython False 5 (Some ''a'') (Some ''t1'') (Some ''d1'') False
     (snd (XCom_set cpython False 200 (Some ''a'') (PyTuple [PyInt 1, PyInt 2]) 5 ''t1'' ''d1''
        empty_session))) = Inr (PyList [PyInt 1, PyInt 2])"
    by (simp add: XCom_get_one_def q query_first_def sample_row_def
          cpython_get_one_deserialize_json)
  show ?thesis using w g by simp
qed

text \<open>
  C2, as the code has it. Let a payload \<open>b\<close> be the pickle of \<open>v\<close>, written while
  \<open>enable_xcom_pickling\<close> was on, and let \<open>pickle.loads\<close> invert it. \<open>init_on_load\<close>, which
  runs on every instance that \<open>get_many\<close> loads, returns \<open>v\<close> with pickling on, and also
  with pickling off whenever the UTF-8 and JSON decoding of \<open>b\<close> fails with a
  \<open>ValueError\<close>: it then falls back to \<open>pickle.loads\<close>. \<open>get_one\<close> has no fallback: with
  pickling off it logs the advice to enable pickling and raises that \<open>ValueError\<close> again.
\<close>

theorem init_on_load_legacy_fallback:
  assumes "fst (set_serialize lib True v) = Inr b"
    and "pickle_loads lib b = Inr v"
    and "(case bytes_decode lib b of Inl e \<Rightarrow> Inl e | Inr t \<Rightarrow> json_loads lib t) = Inl e"
    and "isinstance e ValueError"
    and "xcom_value r = b"
  shows "XCom_init_on_load lib True r = Inr (with_value r v) \<and>
         XCom_init_on_load lib False r = Inr (with_value r v) \<and>
         get_one_deserialize lib True b = (Inr v, []) \<and>
         get_one_deserialize lib False b = (Inl e, [get_one_error_message]) \<and>
         (query_first (get_one_query ed key task_id dag_id ip st) = Some r \<longrightarrow>
            XCom_get_one lib False ed key task_id dag_id ip st =
              (Inl e, st\<lparr>error_log := error_log st @ [get_one_error_message]\<rparr>))"
  using assms
  by (simp add: XCom_init_on_load_def get_one_deserialize_def XCom_get_one_def)

text \<open>The pickle of 1, read with pickling off: its first byte, 0x80, cannot start a
  UTF-8 character.\<close>

theorem init_on_load_legacy_fallback_witness:
  "fst (set_serialize cpython True (PyInt 1)) = Inr [0x80, 0x03, 0x4B, 0x01, 0x2E] \<and>
   isinstance (PyExc UnicodeDecodeError ''invalid start byte'') ValueError \<and>
   XCom_init_on_load cpython False (sample_row 7 ''a'' [0x80, 0x03, 0x4B, 0x01, 0x2E] 102 5) =
     Inr (sample_row 7 ''a'' (PyInt 1) 102 5) \<and>
   get_one_deserialize cpython False [0x80, 0x03, 0x4B, 0x01, 0x2E] =
     (Inl (PyExc UnicodeDecodeError ''invalid start byte''), [get_one_error_message])"
proof -
  have e: "fst (set_serialize cpython True (PyInt 1)) = Inr [0x80, 0x03, 0x4B, 0x01, 0x2E]"
    by (simp add: cpython_set_serialize_pickle)
  have p: "pickle_loads cpython [0x80, 0x03, 0x4B, 0x01, 0x2E] = Inr (PyInt 1)"
    by (simp add: cpython_def cpython_pickle_loads_def)
  have j: "(case bytes_decode cpython [0x80, 0x03, 0x4B, 0x01, 0x2E] of
              Inl e \<Rightarrow> Inl e | Inr t \<Rightarrow> json_loads cpython t) =
           Inl (PyExc UnicodeDecodeError ''invalid start byte'')"
    by (simp add: cpython_def)
  have i: "isinstance (PyExc UnicodeDecodeError ''invalid start byte'') ValueError"
    by (simp add: isinstance_def issubclass_def)
  have r: "xcom_value (sample_row 7 ''a'' [0x80, 0x03, 0x4B, 0x01, 0x2E] 102 5) =
              [0x80, 0x03, 0x4B, 0x01, 0x2E]"
    by (simp add: sample_row_def)
  show ?thesis
    using e i init_on_load_legacy_fallback [OF e p j i r, unfolded with_value_sample_row]
    by blast
qed

text \<open>
  C2 as stated fails for \<open>get_one\<close>: a row written as a pickle while pickling was on is
  not returned once pickling is off; the call raises \<open>UnicodeDecodeError\<close>.
\<close>

theorem get_one_no_legacy_fallback_counterexample:
  "fst (XCom_set cpython True 200 (Some ''a'') (PyInt 1) 5 ''t1'' ''d1'' empty_session) = Inr () \<and>
   fst (XCom_get_one cpython False 5 (Some ''a'') (Some ''t1'') (Some ''d1'') False
     (snd (XCom_set cpython True 200 (Some ''a'') (PyInt 1) 5 ''t1'' ''d1'' empty_session))) =
     Inl (PyExc UnicodeDecodeError ''invalid start byte'') \<and>
   fst (XCom_get_one cpython False 5 (Some ''a'') (Some ''t1'') (Some ''d1'') False
     (snd (XCom_set cpython True 200 (Some ''a'') (PyInt 1) 5 ''t1'' ''d1'' empty_session))) \<noteq>
     Inr (PyInt 1)"
proof -
  have w: "fst (XCom_set cpython True 200 (Some ''a'') (PyInt 1) 5 ''t1'' ''d1'' empty_session) = Inr ()"
    by (simp add: XCom_set_success(1) cpython_set_serialize_pickle)
  have q: "get_one_query 5 (Some ''a'') (Some ''t1'') (Some ''d1'') False
     (snd (XCom_set cpython True 200 (Some ''a'') (PyInt 1) 5 ''t1'' ''d1'' empty_session)) =
       [sample_row 1 ''a'' [0x80, 0x03, 0x4B, 0x01, 0x2E] 200 5]"
    by (simp add: get_one_query_def sample_pickled_write get_one_filters_def truthy_str_def
          sql_and_def sample_row_def order_by_desc_def)
  have g: "fst (XCom_get_one cpython False 5 (Some ''a'') (Some ''t1'') (Some ''d1'') False
     (snd (XCom_set cpython True 200 (Some ''a'') (PyInt 1) 5 ''t1'' ''d1'' empty_session))) =
     Inl (PyExc UnicodeDecodeError ''invalid start byte'')"
    by (simp add: XCom_get_one_def q query_first_def sample_row_def
          cpython_get_one_deserialize_pickled)
  show ?thesis using w g by simp
qed

text \<open>
  C3. With pickling off, \<open>set\<close> is handed an instance of a class that \<open>json.dumps\<close> cannot
  serialise (here a \<open>set\<close>). \<open>json.dumps\<close> raises \<open>TypeError\<close>, which the handler
  \<open>except ValueError\<close> does not catch: the exception reaches the caller and the table is left
  as it was, but nothing is written to the error log, where the claim has the failure logged
  before it is raised again.
\<close>

theorem set_type_error_not_logged:
  "XCom_set cpython False 200 (Some ''a'') (PyObject ''set'') 5 ''t1'' ''d1'' sample_session =
     (Inl (PyExc TypeError ''Object of type set is not JSON serializable''), sample_session)"
  by (simp add: XCom_set_def cpython_dumps_object session_expunge_all_def sample_session_def)

text \<open>
  C4. The rows of the query of \<open>get_one\<close> and of \<open>get_many\<close>, and the instances \<open>get_many\<close>
  returns, are in descending order of \<open>execution_date\<close> and, among equal execution dates,
  of \<open>timestamp\<close>: of two returned instances with the same execution date and different
  timestamps the one with the later timestamp comes first. \<open>get_one\<close> deserialises the
  payload of the first row of that order: a matching row whose execution date is the latest
  among the matching rows, and whose timestamp is the latest among those of that date.
\<close>

theorem query_order_desc:
  "sorted_wrt spec_precedes (get_one_query ed key task_id dag_id ip st) \<and>
   (\<forall>r. query_first (get_one_query ed key task_id dag_id ip st) = Some r \<longrightarrow>
        r \<in> set (xcom_table st) \<and>
        spec_match_one ed (effective_str key) (effective_str task_id) (effective_str dag_id) ip r \<and>
        (\<forall>r'\<in>set (xcom_table st).
           spec_match_one ed (effective_str key) (effective_str task_id) (effective_str dag_id) ip r'
             \<longrightarrow> spec_precedes r r') \<and>
        fst (XCom_get_one lib f ed key task_id dag_id ip st) =
          fst (get_one_deserialize lib f (xcom_value r))) \<and>
   (\<forall>q. get_many_query ed key task_ids dag_ids ip limit st = Inr q \<longrightarrow>
        sorted_wrt spec_precedes q) \<and>
   (\<forall>rs. XCom_get_many lib f ed key task_ids dag_ids ip limit st = Inr rs \<longrightarrow>
        sorted_wrt spec_precedes rs \<and>
        (\<forall>i j. i < j \<and> j < length rs \<and>
           xcom_execution_date (rs ! i) = xcom_execution_date (rs ! j) \<and>
           xcom_timestamp (rs ! i) \<noteq> xcom_timestamp (rs ! j) \<longrightarrow>
           xcom_timestamp (rs ! j) < xcom_timestamp (rs ! i)))"
proof (intro conjI allI impI)
  show "sorted_wrt spec_precedes (get_one_query ed key task_id dag_id ip st)"
    by (simp add: get_one_query_def order_by_desc_sorted)
next
  fix r assume a: "query_first (get_one_query ed key task_id dag_id ip st) = Some r"
  show "r \<in> set (xcom_table st)" by (rule get_one_first(1) [OF a])
  show "spec_match_one ed (effective_str key) (effective_str task_id) (effective_str dag_id) ip r"
    by (rule get_one_first(2) [OF a])
  show "\<forall>r'\<in>set (xcom_table st).
           spec_match_one ed (effective_str key) (effective_str task_id) (effective_str dag_id) ip r'
             \<longrightarrow> spec_precedes r r'"
    by (rule get_one_first(3) [OF a])
  show "fst (XCom_get_one lib f ed key task_id dag_id ip st) =
          fst (get_one_deserialize lib f (xcom_value r))"
    by (rule XCom_get_one_selected [OF a])
next
  fix q assume "get_many_query ed key task_ids dag_ids ip limit st = Inr q"
  then show "sorted_wrt spec_precedes q" by (rule get_many_query_sorted)
next
  fix rs assume a: "XCom_get_many lib f ed key task_ids dag_ids ip limit st = Inr rs"
  then obtain q where q: "get_many_query ed key task_ids dag_ids ip limit st = Inr q"
    and l: "list_all2 (\<lambda>r x. XCom_init_on_load lib f r = Inr x) q rs"
    using XCom_get_many_rel by blast
  show s: "sorted_wrt spec_precedes rs"
    using l get_many_query_sorted [OF q] by (rule sorted_wrt_loaded)
  fix i j
  assume h: "i < j \<and> j < length rs \<and>
           xcom_execution_date (rs ! i) = xcom_execution_date (rs ! j) \<and>
           xcom_timestamp (rs ! i) \<noteq> xcom_timestamp (rs ! j)"
  then have "spec_precedes (rs ! i) (rs ! j)"
    using s by (simp add: sorted_wrt_iff_nth_less)
  with h show "xcom_timestamp (rs ! j) < xcom_timestamp (rs ! i)"
    by (auto simp add: spec_precedes_def)
qed

text \<open>On the sample table, rows 5 and 4 share the latest execution date; row 5 has the
  later timestamp and comes first.\<close>

theorem query_order_desc_witness:
  "XCom_get_many cpython False 5 None None None True 2 sample_session =
     Inr [sample_row 5 ''b'' (PyList [PyInt 1, PyInt 2]) 104 5,
          sample_row 4 ''a'' (PyInt 2) 103 5] \<and>
   sorted_wrt spec_precedes
     [sample_row 5 ''b'' (PyList [PyInt 1, PyInt 2]) 104 5, sample_row 4 ''a'' (PyInt 2) 103 5] \<and>
   query_first (get_one_query 5 None None None True sample_session) =
     Some (sample_row 5 ''b'' [0x5B, 0x31, 0x2C, 0x20, 0x32, 0x5D] 104 5) \<and>
   fst (XCom_get_one cpython False 5 None None None True sample_session) =
     Inr (PyList [PyInt 1, PyInt 2])"
proof -
  note T = query_order_desc [of 5 None None None True sample_session cpython False None None 2]
  have s: "sorted_wrt spec_precedes
     [sample_row 5 ''b'' (PyList [PyInt 1, PyInt 2]) 104 5, sample_row 4 ''a'' (PyInt 2) 103 5]"
    using T sample_get_many_2 by blast
  have q: "query_first (get_one_query 5 None None None True sample_session) =
     Some (sample_row 5 ''b'' [0x5B, 0x31, 0x2C, 0x20, 0x32, 0x5D] 104 5)"
    by (simp add: sample_get_one_query_prior sample_ordered query_first_def)
  have "fst (XCom_get_one cpython False 5 None None None True sample_session) =
     fst (get_one_deserialize cpython False
       (xcom_value (sample_row 5 ''b'' [0x5B, 0x31, 0x2C, 0x20, 0x32, 0x5D] 104 5)))"
    using T q by blast
  then have g: "fst (XCom_get_one cpython False 5 None None None True sample_session) =
     Inr (PyList [PyInt 1, PyInt 2])"
    by (simp add: sample_row_def cpython_get_one_deserialize_json)
  show ?thesis
    using sample_get_many_2 s q g by blast
qed

text \<open>
  C5, as the code has it. A filter counts when its argument is true: given and not empty.
  The rows that \<open>get_one\<close> and \<open>get_many\<close> choose from are exactly the rows of the table
  that satisfy every such filter and whose \<open>execution_date\<close> equals the argument when
  \<open>include_prior_dates\<close> is false, and is at most the argument when it is true. \<open>get_one\<close>
  returns \<open>None\<close> when no row is of that kind and the deserialised payload of one of them
  otherwise. Every instance \<open>get_many\<close> returns is of that kind; when the limit is not
  below the size of the table, every row of that kind is among the rows of the query and
  has its loaded instance in the result; and \<open>get_many\<close> returns a result whenever the
  limit fits 64 bits and the rows of the table can be loaded.
\<close>

theorem filters_conjunctive:
  "set (get_one_query ed key task_id dag_id ip st) =
     {r \<in> set (xcom_table st).
        spec_match_one ed (effective_str key) (effective_str task_id) (effective_str dag_id)
          ip r} \<and>
   ((\<forall>r\<in>set (xcom_table st).
       \<not> spec_match_one ed (effective_str key) (effective_str task_id) (effective_str dag_id)
           ip r) \<longrightarrow>
      XCom_get_one lib f ed key task_id dag_id ip st = (Inr PyNone, st)) \<and>
   ((\<exists>r\<in>set (xcom_table st).
       spec_match_one ed (effective_str key) (effective_str task_id) (effective_str dag_id)
         ip r) \<longrightarrow>
      (\<exists>r\<in>set (xcom_table st).
         spec_match_one ed (effective_str key) (effective_str task_id) (effective_str dag_id)
           ip r \<and>
         fst (XCom_get_one lib f ed key task_id dag_id ip st) =
           fst (get_one_deserialize lib f (xcom_value r)))) \<and>
   (\<forall>q. get_many_query ed key task_ids dag_ids ip limit st = Inr q \<longrightarrow>
      set q \<subseteq> {r \<in> set (xcom_table st).
        spec_match_many ed (effective_str key) (effective_ids task_ids) (effective_ids dag_ids)
          ip r}) \<and>
   (int (length (xcom_table st)) \<le> limit \<and> limit < 2 ^ 63 \<longrightarrow>
      (\<exists>q. get_many_query ed key task_ids dag_ids ip limit st = Inr q \<and>
         set q = {r \<in> set (xcom_table st).
           spec_match_many ed (effective_str key) (effective_ids task_ids) (effective_ids dag_ids)
             ip r})) \<and>
   (\<forall>rs. XCom_get_many lib f ed key task_ids dag_ids ip limit st = Inr rs \<longrightarrow>
      (\<forall>x\<in>set rs.
         spec_match_many ed (effective_str key) (effective_ids task_ids) (effective_ids dag_ids)
           ip x)) \<and>
   (int (length (xcom_table st)) \<le> limit \<and> limit < 2 ^ 63 \<longrightarrow>
      (\<forall>rs. XCom_get_many lib f ed key task_ids dag_ids ip limit st = Inr rs \<longrightarrow>
         (\<forall>r\<in>set (xcom_table st).
            spec_match_many ed (effective_str key) (effective_ids task_ids)
              (effective_ids dag_ids) ip r \<longrightarrow>
            (\<exists>x\<in>set rs. XCom_init_on_load lib f r = Inr x)))) \<and>
   (- (2 ^ 63) \<le> limit \<and> limit < 2 ^ 63 \<and>
    list_all (\<lambda>r. \<exists>x. XCom_init_on_load lib f r = Inr x) (xcom_table st) \<longrightarrow>
      (\<exists>rs. XCom_get_many lib f ed key task_ids dag_ids ip limit st = Inr rs))"
proof (intro conjI allI impI)
  show "set (get_one_query ed key task_id dag_id ip st) =
     {r \<in> set (xcom_table st).
        spec_match_one ed (effective_str key) (effective_str task_id) (effective_str dag_id)
          ip r}"
    by (rule get_one_query_set)
next
  assume "\<forall>r\<in>set (xcom_table st).
       \<not> spec_match_one ed (effective_str key) (effective_str task_id) (effective_str dag_id)
           ip r"
  then show "XCom_get_one lib f ed key task_id dag_id ip st = (Inr PyNone, st)"
    by (rule XCom_get_one_absent)
next
  assume "\<exists>r\<in>set (xcom_table st).
       spec_match_one ed (effective_str key) (effective_str task_id) (effective_str dag_id)
         ip r"
  then have "set (get_one_query ed key task_id dag_id ip st) \<noteq> {}"
    by (auto simp add: get_one_query_set)
  then obtain r where a: "query_first (get_one_query ed key task_id dag_id ip st) = Some r"
    by (cases "get_one_query ed key task_id dag_id ip st") (auto simp add: query_first_def)
  show "\<exists>r\<in>set (xcom_table st).
         spec_match_one ed (effective_str key) (effective_str task_id) (effective_str dag_id)
           ip r \<and>
         fst (XCom_get_one lib f ed key task_id dag_id ip st) =
           fst (get_one_deserialize lib f (xcom_value r))"
    using get_one_first(1,2) [OF a] XCom_get_one_selected [OF a] by blast
next
  fix q assume "get_many_query ed key task_ids dag_ids ip limit st = Inr q"
  then show "set q \<subseteq> {r \<in> set (xcom_table st).
        spec_match_many ed (effective_str key) (effective_ids task_ids) (effective_ids dag_ids)
          ip r}"
    by (rule get_many_query_subset)
next
  assume l: "int (length (xcom_table st)) \<le> limit \<and> limit < 2 ^ 63"
  then have "get_many_query ed key task_ids dag_ids ip limit st =
       Inr (order_by_desc
            (filter (spec_match_many ed (effective_str key) (effective_ids task_ids)
                       (effective_ids dag_ids) ip) (xcom_table st)))"
    by (intro get_many_query_all) auto
  then show "\<exists>q. get_many_query ed key task_ids dag_ids ip limit st = Inr q \<and>
         set q = {r \<in> set (xcom_table st).
           spec_match_many ed (effective_str key) (effective_ids task_ids) (effective_ids dag_ids)
             ip r}"
    by (auto simp add: order_by_desc_set)
next
  fix rs
  assume a: "XCom_get_many lib f ed key task_ids dag_ids ip limit st = Inr rs"
  show "\<forall>x\<in>set rs.
         spec_match_many ed (effective_str key) (effective_ids task_ids) (effective_ids dag_ids)
           ip x"
    using XCom_get_many_matches [OF a] by blast
next
  fix rs
  assume l: "int (length (xcom_table st)) \<le> limit \<and> limit < 2 ^ 63"
    and a: "XCom_get_many lib f ed key task_ids dag_ids ip limit st = Inr rs"
  have l1: "int (length (xcom_table st)) \<le> limit \<or> limit < 0" using l by simp
  have "(0::int) \<le> int (length (xcom_table st))" by simp
  with l have "0 \<le> limit" by linarith
  then have l2: "- (2 ^ 63) \<le> limit" by simp
  have l3: "limit < 2 ^ 63" using l by simp
  show "\<forall>r\<in>set (xcom_table st).
            spec_match_many ed (effective_str key) (effective_ids task_ids)
              (effective_ids dag_ids) ip r \<longrightarrow>
            (\<exists>x\<in>set rs. XCom_init_on_load lib f r = Inr x)"
    using XCom_get_many_complete [OF l1 l2 l3 a] by blast
next
  assume "- (2 ^ 63) \<le> limit \<and> limit < 2 ^ 63 \<and>
    list_all (\<lambda>r. \<exists>x. XCom_init_on_load lib f r = Inr x) (xcom_table st)"
  then show "\<exists>rs. XCom_get_many lib f ed key task_ids dag_ids ip limit st = Inr rs"
    using XCom_get_many_total [of limit lib f st ed key task_ids dag_ids ip] by blast
qed

text \<open>On the sample table with key \<open>a\<close>: nothing at execution date 9; at execution date
  5 row 4 matches, row 5 (key \<open>b\<close>) and row 2 (execution date 4) do not; with prior dates
  included row 2 matches; \<open>get_many\<close> returns rows 4 and 3.\<close>

theorem filters_conjunctive_witness:
  "XCom_get_one cpython False 9 (Some ''a'') None None False sample_session =
     (Inr PyNone, sample_session) \<and>
   sample_row 4 ''a'' [0x32] 103 5 \<in> set (get_one_query 5 (Some ''a'') None None False sample_session) \<and>
   sample_row 5 ''b'' [0x5B, 0x31, 0x2C, 0x20, 0x32, 0x5D] 104 5 \<notin>
     set (get_one_query 5 (Some ''a'') None None False sample_session) \<and>
   sample_row 2 ''a'' [0x32] 101 4 \<notin>
     set (get_one_query 5 (Some ''a'') None None False sample_session) \<and>
   sample_row 2 ''a'' [0x32] 101 4 \<in>
     set (get_one_query 5 (Some ''a'') None None True sample_session) \<and>
   XCom_get_many cpython False 5 (Some ''a'') None None False 100 sample_session =
     Inr [sample_row 4 ''a'' (PyInt 2) 103 5, sample_row 3 ''a'' (PyInt 1) 102 5] \<and>
   spec_match_many 5 (Some ''a'') None None False (sample_row 4 ''a'' (PyInt 2) 103 5)"
proof -
  note T9 = filters_conjunctive [of 9 "Some ''a''" None None False sample_session cpython False
        None None 100]
  note T5 = filters_conjunctive [of 5 "Some ''a''" None None False sample_session cpython False
        None None 100]
  note T5p = filters_conjunctive [of 5 "Some ''a''" None None True sample_session cpython False
        None None 100]
  have n: "effective_str (Some ''a'') = Some ''a''" "effective_str None = None"
    "effective_ids None = None"
    by (simp_all add: effective_str_def effective_ids_def truthy_str_def truthy_ids_def)
  have h: "\<forall>r\<in>set (xcom_table sample_session).
       \<not> spec_match_one 9 (effective_str (Some ''a'')) (effective_str None) (effective_str None)
           False r"
    by (simp add: n sample_session_def sample_table_def sample_row_def spec_match_one_def
          spec_date_match_def)
  have a: "XCom_get_one cpython False 9 (Some ''a'') None None False sample_session =
     (Inr PyNone, sample_session)"
    using h T9 [THEN conjunct2, THEN conjunct1] by blast
  have b: "set (get_one_query 5 (Some ''a'') None None False sample_session) =
     {r \<in> set (xcom_table sample_session).
        spec_match_one 5 (effective_str (Some ''a'')) (effective_str None) (effective_str None)
          False r}"
    by (rule T5 [THEN conjunct1])
  have c: "set (get_one_query 5 (Some ''a'') None None True sample_session) =
     {r \<in> set (xcom_table sample_session).
        spec_match_one 5 (effective_str (Some ''a'')) (effective_str None) (effective_str None)
          True r}"
    by (rule T5p [THEN conjunct1])
  have m: "\<forall>x\<in>set [sample_row 4 ''a'' (PyInt 2) 103 5, sample_row 3 ''a'' (PyInt 1) 102 5].
         spec_match_many 5 (effective_str (Some ''a'')) (effective_ids None) (effective_ids None)
           False x"
    using sample_get_many_key_a
      T5 [THEN conjunct2, THEN conjunct2, THEN conjunct2, THEN conjunct2, THEN conjunct2,
          THEN conjunct1]
    by blast
  then have d: "spec_match_many 5 (Some ''a'') None None False (sample_row 4 ''a'' (PyInt 2) 103 5)"
    by (simp add: n)
  have mem: "sample_row 4 ''a'' [0x32] 103 5 \<in>
       set (get_one_query 5 (Some ''a'') None None False sample_session) \<and>
     sample_row 5 ''b'' [0x5B, 0x31, 0x2C, 0x20, 0x32, 0x5D] 104 5 \<notin>
       set (get_one_query 5 (Some ''a'') None None False sample_session) \<and>
     sample_row 2 ''a'' [0x32] 101 4 \<notin>
       set (get_one_query 5 (Some ''a'') None None False sample_session) \<and>
     sample_row 2 ''a'' [0x32] 101 4 \<in>
       set (get_one_query 5 (Some ''a'') None None True sample_session)"
    unfolding b c
    by (simp add: n sample_session_def sample_table_def sample_row_def spec_match_one_def
          spec_date_match_def)
  show ?thesis
    by (insert a mem sample_get_many_key_a d, elim conjE, intro conjI; assumption)
qed

text \<open>
  C5 as stated fails for a filter that is provided and empty: with the key \<open>''\<close> the
  query of \<open>get_one\<close> holds row 5 of the sample table, whose key is \<open>b\<close> and not \<open>''\<close>, and
  \<open>get_one\<close> returns its payload. The provided filter does not narrow the candidates.
\<close>

theorem provided_empty_filter_counterexample:
  "sample_row 5 ''b'' [0x5B, 0x31, 0x2C, 0x20, 0x32, 0x5D] 104 5 \<in>
     set (get_one_query 5 (Some []) None None False sample_session) \<and>
   \<not> spec_match_one 5 (Some []) None None False
       (sample_row 5 ''b'' [0x5B, 0x31, 0x2C, 0x20, 0x32, 0x5D] 104 5) \<and>
   fst (XCom_get_one cpython False 5 (Some []) None None False sample_session) =
     Inr (PyList [PyInt 1, PyInt 2])"
proof -
  have f: "filter (sql_and (get_one_filters 5 (Some []) None None False)) sample_table =
     [sample_row 3 ''a'' [0x31] 102 5, sample_row 4 ''a'' [0x32] 103 5,
      sample_row 5 ''b'' [0x5B, 0x31, 0x2C, 0x20, 0x32, 0x5D] 104 5]"
    by (simp add: get_one_filters_def truthy_str_def sql_and_def sample_table_def sample_row_def)
  have o: "order_by_desc
     ([sample_row 3 ''a'' [0x31] 102 5, sample_row 4 ''a'' [0x32] 103 5,
       sample_row 5 ''b'' [0x5B, 0x31, 0x2C, 0x20, 0x32, 0x5D] 104 5] :: bytes xcom list) =
     [sample_row 5 ''b'' [0x5B, 0x31, 0x2C, 0x20, 0x32, 0x5D] 104 5,
      sample_row 4 ''a'' [0x32] 103 5, sample_row 3 ''a'' [0x31] 102 5]"
    by (simp add: order_by_desc_def desc_key_def sample_row_def less_eq_prod_def)
  have q: "get_one_query 5 (Some []) None None False sample_session =
     [sample_row 5 ''b'' [0x5B, 0x31, 0x2C, 0x20, 0x32, 0x5D] 104 5,
      sample_row 4 ''a'' [0x32] 103 5, sample_row 3 ''a'' [0x31] 102 5]"
    by (simp add: get_one_query_def sample_session_def f o)
  have a: "sample_row 5 ''b'' [0x5B, 0x31, 0x2C, 0x20, 0x32, 0x5D] 104 5 \<in>
     set (get_one_query 5 (Some []) None None False sample_session)"
    by (simp add: q)
  have b: "\<not> spec_match_one 5 (Some []) None None False
       (sample_row 5 ''b'' [0x5B, 0x31, 0x2C, 0x20, 0x32, 0x5D] 104 5)"
    by (simp add: spec_match_one_def sample_row_def)
  have c: "fst (XCom_get_one cpython False 5 (Some []) None None False sample_session) =
     Inr (PyList [PyInt 1, PyInt 2])"
    by (simp add: XCom_get_one_def q query_first_def sample_row_def
          cpython_get_one_deserialize_json)
  show ?thesis
    using a b c by (intro conjI)
qed

text \<open>
  C6, as the code has it. Let \<open>set\<close> serialise \<open>v\<close> to the payload \<open>b\<close> under one setting of
  \<open>enable_xcom_pickling\<close>, and let the serialiser of that setting invert what it produced
  for \<open>v\<close>: with pickling on, \<open>pickle.loads\<close> the pickle; with pickling off, \<open>json.loads\<close>
  the JSON text and the UTF-8 decoding the encoded text. Then under the same setting both
  the deserialisation in \<open>get_one\<close> and \<open>init_on_load\<close> give back \<open>v\<close>.
\<close>

theorem serialize_roundtrip:
  assumes "fst (set_serialize lib enable_pickling v) = Inr b"
    and "enable_pickling \<longrightarrow>
           (\<forall>p. pickle_dumps lib v = Inr p \<longrightarrow> pickle_loads lib p = Inr v)"
    and "\<not> enable_pickling \<longrightarrow>
           (\<forall>t. json_dumps lib v = Inr t \<longrightarrow>
              json_loads lib t = Inr v \<and>
              (\<forall>u. str_encode lib t = Inr u \<longrightarrow> bytes_decode lib u = Inr t))"
    and "xcom_value r = b"
  shows "get_one_deserialize lib enable_pickling b = (Inr v, []) \<and>
         XCom_init_on_load lib enable_pickling r = Inr (with_value r v)"
proof (cases enable_pickling)
  case True
  with assms(1) have "pickle_dumps lib v = Inr b"
    by (simp add: set_serialize_def)
  then have "pickle_loads lib b = Inr v" using True assms(2) by blast
  with True assms(4) show ?thesis
    by (simp add: get_one_deserialize_def XCom_init_on_load_def)
next
  case False
  with assms(1) obtain t where t: "json_dumps lib v = Inr t" and u: "str_encode lib t = Inr b"
    by (auto simp add: set_serialize_def split: sum.splits if_splits)
  have "bytes_decode lib b = Inr t" using False t u assms(3) by blast
  moreover have "json_loads lib t = Inr v" using False t assms(3) by blast
  ultimately show ?thesis
    using False assms(4)
    by (simp add: get_one_deserialize_def XCom_init_on_load_def)
qed

text \<open>The integer 1 with pickling off, and the tuple \<open>(1, 2)\<close> with pickling on.\<close>

theorem serialize_roundtrip_witness:
  "fst (set_serialize cpython False (PyInt 1)) = Inr [0x31] \<and>
   get_one_deserialize cpython False [0x31] = (Inr (PyInt 1), []) \<and>
   XCom_init_on_load cpython False (sample_row 3 ''a'' [0x31] 102 5) =
     Inr (sample_row 3 ''a'' (PyInt 1) 102 5) \<and>
   fst (set_serialize cpython True (PyTuple [PyInt 1, PyInt 2])) =
     Inr [0x80, 0x03, 0x4B, 0x01, 0x4B, 0x02, 0x86, 0x71, 0x00, 0x2E] \<and>
   get_one_deserialize cpython True [0x80, 0x03, 0x4B, 0x01, 0x4B, 0x02, 0x86, 0x71, 0x00, 0x2E] =
     (Inr (PyTuple [PyInt 1, PyInt 2]), []) \<and>
   XCom_init_on_load cpython True
     (sample_row 7 ''a'' [0x80, 0x03, 0x4B, 0x01, 0x4B, 0x02, 0x86, 0x71, 0x00, 0x2E] 102 5) =
     Inr (sample_row 7 ''a'' (PyTuple [PyInt 1, PyInt 2]) 102 5)"
proof -
  have e1: "fst (set_serialize cpython False (PyInt 1)) = Inr [0x31]"
    by (simp add: cpython_set_serialize_json)
  have e2: "fst (set_serialize cpython True (PyTuple [PyInt 1, PyInt 2])) =
              Inr [0x80, 0x03, 0x4B, 0x01, 0x4B, 0x02, 0x86, 0x71, 0x00, 0x2E]"
    by (simp add: cpython_pickle_tuple)
  have p1: "False \<longrightarrow>
           (\<forall>p. pickle_dumps cpython (PyInt 1) = Inr p \<longrightarrow> pickle_loads cpython p = Inr (PyInt 1))"
    by simp
  have j1: "\<not> False \<longrightarrow>
           (\<forall>t. json_dumps cpython (PyInt 1) = Inr t \<longrightarrow>
              json_loads cpython t = Inr (PyInt 1) \<and>
              (\<forall>u. str_encode cpython t = Inr u \<longrightarrow> bytes_decode cpython u = Inr t))"
    by (auto simp add: cpython_def cpython_json_dumps_def cpython_json_loads_def
          cpython_str_encode_def char_of_eq_iff)
  have p2: "True \<longrightarrow>
           (\<forall>p. pickle_dumps cpython (PyTuple [PyInt 1, PyInt 2]) = Inr p \<longrightarrow>
              pickle_loads cpython p = Inr (PyTuple [PyInt 1, PyInt 2]))"
    by (auto simp add: cpython_def cpython_pickle_dumps_def cpython_pickle_loads_def)
  have j2: "\<not> True \<longrightarrow>
           (\<forall>t. json_dumps cpython (PyTuple [PyInt 1, PyInt 2]) = Inr t \<longrightarrow>
              json_loads cpython t = Inr (PyTuple [PyInt 1, PyInt 2]) \<and>
              (\<forall>u. str_encode cpython t = Inr u \<longrightarrow> bytes_decode cpython u = Inr t))"
    by simp
  have r1: "xcom_value (sample_row 3 ''a'' [0x31] 102 5) = [0x31]"
    by (simp add: sample_row_def)
  have r2: "xcom_value
              (sample_row 7 ''a'' [0x80, 0x03, 0x4B, 0x01, 0x4B, 0x02, 0x86, 0x71, 0x00, 0x2E] 102 5) =
              [0x80, 0x03, 0x4B, 0x01, 0x4B, 0x02, 0x86, 0x71, 0x00, 0x2E]"
    by (simp add: sample_row_def)
  show ?thesis
    using e1 e2 serialize_roundtrip [OF e1 p1 j1 r1, unfolded with_value_sample_row]
      serialize_roundtrip [OF e2 p2 j2 r2, unfolded with_value_sample_row]
    by blast
qed

text \<open>
  C6 as stated fails for a value that \<open>json.dumps\<close> accepts and \<open>json.loads\<close> does not give
  back: the tuple \<open>(1, 2)\<close> is serialised to \<open>[1, 2]\<close> and deserialised to a list.
\<close>

theorem roundtrip_tuple_counterexample:
  "fst (set_serialize cpython False (PyTuple [PyInt 1, PyInt 2])) =
     Inr [0x5B, 0x31, 0x2C, 0x20, 0x32, 0x5D] \<and>
   fst (get_one_deserialize cpython False [0x5B, 0x31, 0x2C, 0x20, 0x32, 0x5D]) =
     Inr (PyList [PyInt 1, PyInt 2]) \<and>
   fst (get_one_deserialize cpython False [0x5B, 0x31, 0x2C, 0x20, 0x32, 0x5D]) \<noteq>
     Inr (PyTuple [PyInt 1, PyInt 2])"
  by (simp add: cpython_set_serialize_json cpython_get_one_deserialize_json)

text \<open>
  C7. If the serialisation in \<open>set\<close> raises, \<open>set\<close> raises the same exception and the table
  is as before: no row is deleted, none is inserted and no id is used up.
\<close>

theorem set_encode_failure_no_mutation:
  assumes "fst (set_serialize lib enable_pickling value) = Inl e"
  shows "fst (XCom_set lib enable_pickling now key value execution_date task_id dag_id st) = Inl e \<and>
         xcom_table (snd (XCom_set lib enable_pickling now key value execution_date task_id dag_id st))
           = xcom_table st \<and>
         next_id (snd (XCom_set lib enable_pickling now key value execution_date task_id dag_id st))
           = next_id st"
  by (simp add: XCom_set_failure [OF assms] session_expunge_all_def)

text \<open>A value that cannot be serialised, written over the natural key of rows 3 and 4
  of the sample table.\<close>

theorem set_encode_failure_no_mutation_witness:
  "fst (set_serialize cpython False (PyObject ''set'')) =
     Inl (PyExc TypeError ''Object of type set is not JSON serializable'') \<and>
   fst (XCom_set cpython False 200 (Some ''a'') (PyObject ''set'') 5 ''t1'' ''d1'' sample_session)
     = Inl (PyExc TypeError ''Object of type set is not JSON serializable'') \<and>
   xcom_table (snd (XCom_set cpython False 200 (Some ''a'') (PyObject ''set'') 5 ''t1'' ''d1''
     sample_session)) = sample_table \<and>
   next_id (snd (XCom_set cpython False 200 (Some ''a'') (PyObject ''set'') 5 ''t1'' ''d1''
     sample_session)) = 6"
proof -
  have h: "fst (set_serialize cpython False (PyObject ''set'')) =
     Inl (PyExc TypeError ''Object of type set is not JSON serializable'')"
    by (simp add: cpython_dumps_object)
  show ?thesis
    using h set_encode_failure_no_mutation [OF h, of 200 "Some ''a''" 5 "''t1''" "''d1''" sample_session]
    by (simp add: sample_session_def)
qed


text \<open>
  C9, as the code has it. For a limit from 0 up to, and not including, \<open>2 ^ 63\<close>, the query
  of \<open>get_many\<close> holds the first \<open>limit\<close> rows, or all of them if there are fewer, of the
  matching rows in descending order of \<open>execution_date\<close> and \<open>timestamp\<close>; \<open>get_many\<close> returns
  the instances loaded from them, provided each can be loaded, and the empty list for the
  limit zero. No limit is checked by \<open>get_many\<close>: on SQLite a negative limit down to
  \<open>- (2 ^ 63)\<close> means no bound, and the query holds every matching row in that order; a
  limit that does not fit a signed 64-bit integer makes the call raise \<open>OverflowError\<close>.
\<close>

theorem get_many_limit:
  "(0 \<le> limit \<and> limit < 2 ^ 63 \<longrightarrow>
      (\<exists>q rest.
         get_many_query ed key task_ids dag_ids ip limit st = Inr q \<and>
         length q = min (nat limit)
           (length (filter (spec_match_many ed (effective_str key) (effective_ids task_ids)
                              (effective_ids dag_ids) ip) (xcom_table st))) \<and>
         mset (q @ rest) =
           mset (filter (spec_match_many ed (effective_str key) (effective_ids task_ids)
                           (effective_ids dag_ids) ip) (xcom_table st)) \<and>
         sorted_wrt spec_precedes (q @ rest) \<and>
         (\<forall>rs. XCom_get_many lib f ed key task_ids dag_ids ip limit st = Inr rs \<longrightarrow>
            list_all2 (\<lambda>r x. XCom_init_on_load lib f r = Inr x) q rs) \<and>
         (list_all (\<lambda>r. \<exists>x. XCom_init_on_load lib f r = Inr x) q \<longrightarrow>
            (\<exists>rs. XCom_get_many lib f ed key task_ids dag_ids ip limit st = Inr rs)))) \<and>
   (limit = 0 \<longrightarrow> XCom_get_many lib f ed key task_ids dag_ids ip limit st = Inr []) \<and>
   (- (2 ^ 63) \<le> limit \<and> limit < 0 \<longrightarrow>
      (\<exists>q.
         get_many_query ed key task_ids dag_ids ip limit st = Inr q \<and>
         mset q =
           mset (filter (spec_match_many ed (effective_str key) (effective_ids task_ids)
                           (effective_ids dag_ids) ip) (xcom_table st)) \<and>
         sorted_wrt spec_precedes q \<and>
         (\<forall>rs. XCom_get_many lib f ed key task_ids dag_ids ip limit st = Inr rs \<longrightarrow>
            list_all2 (\<lambda>r x. XCom_init_on_load lib f r = Inr x) q rs) \<and>
         (list_all (\<lambda>r. \<exists>x. XCom_init_on_load lib f r = Inr x) q \<longrightarrow>
            (\<exists>rs. XCom_get_many lib f ed key task_ids dag_ids ip limit st = Inr rs)))) \<and>
   (limit < - (2 ^ 63) \<or> 2 ^ 63 \<le> limit \<longrightarrow>
      XCom_get_many lib f ed key task_ids dag_ids ip limit st =
        Inl (PyExc OverflowError ''Python int too large to convert to SQLite INTEGER''))"
proof -
  let ?c = "filter (spec_match_many ed (effective_str key) (effective_ids task_ids)
                      (effective_ids dag_ids) ip) (xcom_table st)"
  let ?o = "order_by_desc ?c"
  have rel: "\<And>q. get_many_query ed key task_ids dag_ids ip limit st = Inr q \<Longrightarrow>
      (\<forall>rs. XCom_get_many lib f ed key task_ids dag_ids ip limit st = Inr rs \<longrightarrow>
              list_all2 (\<lambda>r x. XCom_init_on_load lib f r = Inr x) q rs) \<and>
      (list_all (\<lambda>r. \<exists>x. XCom_init_on_load lib f r = Inr x) q \<longrightarrow>
              (\<exists>rs. XCom_get_many lib f ed key task_ids dag_ids ip limit st = Inr rs))"
  proof -
    fix q assume q: "get_many_query ed key task_ids dag_ids ip limit st = Inr q"
    have a: "\<forall>rs. XCom_get_many lib f ed key task_ids dag_ids ip limit st = Inr rs \<longrightarrow>
              list_all2 (\<lambda>r x. XCom_init_on_load lib f r = Inr x) q rs"
      using XCom_get_many_rel [of lib f ed key task_ids dag_ids ip limit st] q by auto
    have b: "list_all (\<lambda>r. \<exists>x. XCom_init_on_load lib f r = Inr x) q \<longrightarrow>
              (\<exists>rs. XCom_get_many lib f ed key task_ids dag_ids ip limit st = Inr rs)"
      using load_all_total [of lib f q] by (simp add: XCom_get_many_def q)
    show "(\<forall>rs. XCom_get_many lib f ed key task_ids dag_ids ip limit st = Inr rs \<longrightarrow>
              list_all2 (\<lambda>r x. XCom_init_on_load lib f r = Inr x) q rs) \<and>
      (list_all (\<lambda>r. \<exists>x. XCom_init_on_load lib f r = Inr x) q \<longrightarrow>
              (\<exists>rs. XCom_get_many lib f ed key task_ids dag_ids ip limit st = Inr rs))"
      using a b by blast
  qed
  have pos: "0 \<le> limit \<and> limit < 2 ^ 63 \<longrightarrow>
      (\<exists>q rest.
         get_many_query ed key task_ids dag_ids ip limit st = Inr q \<and>
         length q = min (nat limit) (length ?c) \<and>
         mset (q @ rest) = mset ?c \<and>
         sorted_wrt spec_precedes (q @ rest) \<and>
         (\<forall>rs. XCom_get_many lib f ed key task_ids dag_ids ip limit st = Inr rs \<longrightarrow>
            list_all2 (\<lambda>r x. XCom_init_on_load lib f r = Inr x) q rs) \<and>
         (list_all (\<lambda>r. \<exists>x. XCom_init_on_load lib f r = Inr x) q \<longrightarrow>
            (\<exists>rs. XCom_get_many lib f ed key task_ids dag_ids ip limit st = Inr rs)))"
  proof
    assume h: "0 \<le> limit \<and> limit < 2 ^ 63"
    let ?q = "take (nat limit) ?o"
    let ?rest = "drop (nat limit) ?o"
    have q: "get_many_query ed key task_ids dag_ids ip limit st = Inr ?q"
      using h by (simp add: get_many_query_nonneg)
    have len: "length ?q = min (nat limit) (length ?c)"
      by (simp add: order_by_desc_length min.commute)
    have ms: "mset (?q @ ?rest) = mset ?c"
      by (simp add: order_by_desc_mset)
    have so: "sorted_wrt spec_precedes (?q @ ?rest)"
      by (simp add: order_by_desc_sorted)
    show "\<exists>q rest.
         get_many_query ed key task_ids dag_ids ip limit st = Inr q \<and>
         length q = min (nat limit) (length ?c) \<and>
         mset (q @ rest) = mset ?c \<and>
         sorted_wrt spec_precedes (q @ rest) \<and>
         (\<forall>rs. XCom_get_many lib f ed key task_ids dag_ids ip limit st = Inr rs \<longrightarrow>
            list_all2 (\<lambda>r x. XCom_init_on_load lib f r = Inr x) q rs) \<and>
         (list_all (\<lambda>r. \<exists>x. XCom_init_on_load lib f r = Inr x) q \<longrightarrow>
            (\<exists>rs. XCom_get_many lib f ed key task_ids dag_ids ip limit st = Inr rs))"
      using q len ms so rel [OF q] by blast
  qed
  have zero: "limit = 0 \<longrightarrow> XCom_get_many lib f ed key task_ids dag_ids ip limit st = Inr []"
    by (simp add: XCom_get_many_def get_many_query_unfold query_limit_def)
  have neg: "- (2 ^ 63) \<le> limit \<and> limit < 0 \<longrightarrow>
      (\<exists>q.
         get_many_query ed key task_ids dag_ids ip limit st = Inr q \<and>
         mset q = mset ?c \<and>
         sorted_wrt spec_precedes q \<and>
         (\<forall>rs. XCom_get_many lib f ed key task_ids dag_ids ip limit st = Inr rs \<longrightarrow>
            list_all2 (\<lambda>r x. XCom_init_on_load lib f r = Inr x) q rs) \<and>
         (list_all (\<lambda>r. \<exists>x. XCom_init_on_load lib f r = Inr x) q \<longrightarrow>
            (\<exists>rs. XCom_get_many lib f ed key task_ids dag_ids ip limit st = Inr rs)))"
  proof
    assume h: "- (2 ^ 63) \<le> limit \<and> limit < 0"
    have q: "get_many_query ed key task_ids dag_ids ip limit st = Inr ?o"
      using h by (simp add: get_many_query_negative)
    have ms: "mset ?o = mset ?c" by (rule order_by_desc_mset)
    have so: "sorted_wrt spec_precedes ?o" by (rule order_by_desc_sorted)
    show "\<exists>q.
         get_many_query ed key task_ids dag_ids ip limit st = Inr q \<and>
         mset q = mset ?c \<and>
         sorted_wrt spec_precedes q \<and>
         (\<forall>rs. XCom_get_many lib f ed key task_ids dag_ids ip limit st = Inr rs \<longrightarrow>
            list_all2 (\<lambda>r x. XCom_init_on_load lib f r = Inr x) q rs) \<and>
         (list_all (\<lambda>r. \<exists>x. XCom_init_on_load lib f r = Inr x) q \<longrightarrow>
            (\<exists>rs. XCom_get_many lib f ed key task_ids dag_ids ip limit st = Inr rs))"
      using q ms so rel [OF q] by blast
  qed
  have ovf: "limit < - (2 ^ 63) \<or> 2 ^ 63 \<le> limit \<longrightarrow>
      XCom_get_many lib f ed key task_ids dag_ids ip limit st =
        Inl (PyExc OverflowError ''Python int too large to convert to SQLite INTEGER'')"
    by (simp add: XCom_get_many_def get_many_query_overflow)
  show ?thesis
    using pos zero neg ovf by blast
qed

text \<open>On the five matching rows of the sample table: limit 2, limit 0, limit \<open>- 1\<close> and
  limit \<open>2 ^ 63\<close>.\<close>

theorem get_many_limit_witness:
  "(0::int) \<le> 2 \<and> (2::int) < 2 ^ 63 \<and>
   XCom_get_many cpython False 5 None None None True 2 sample_session =
     Inr [sample_row 5 ''b'' (PyList [PyInt 1, PyInt 2]) 104 5,
          sample_row 4 ''a'' (PyInt 2) 103 5] \<and>
   (\<exists>q rest.
      get_many_query 5 None None None True 2 sample_session = Inr q \<and>
      length q = min (nat 2)
        (length (filter (spec_match_many 5 (effective_str None) (effective_ids None)
                           (effective_ids None) True) (xcom_table sample_session))) \<and>
      mset (q @ rest) =
        mset (filter (spec_match_many 5 (effective_str None) (effective_ids None)
                        (effective_ids None) True) (xcom_table sample_session)) \<and>
      sorted_wrt spec_precedes (q @ rest) \<and>
      list_all2 (\<lambda>r x. XCom_init_on_load cpython False r = Inr x) q
        [sample_row 5 ''b'' (PyList [PyInt 1, PyInt 2]) 104 5,
         sample_row 4 ''a'' (PyInt 2) 103 5]) \<and>
   XCom_get_many cpython False 5 None None None True 0 sample_session = Inr [] \<and>
   (\<exists>q. get_many_query 5 None None None True (- 1) sample_session = Inr q \<and>
      mset q = mset (filter (spec_match_many 5 (effective_str None) (effective_ids None)
                        (effective_ids None) True) (xcom_table sample_session))) \<and>
   XCom_get_many cpython False 5 None None None True (2 ^ 63) sample_session =
     Inl (PyExc OverflowError ''Python int too large to convert to SQLite INTEGER'')"
proof -
  note P = get_many_limit [of 2 5 None None None True sample_session cpython False,
      THEN conjunct1]
  note Z = get_many_limit [of 0 5 None None None True sample_session cpython False,
      THEN conjunct2, THEN conjunct1]
  note N = get_many_limit [of "- 1" 5 None None None True sample_session cpython False,
      THEN conjunct2, THEN conjunct2, THEN conjunct1]
  note V = get_many_limit [of "2 ^ 63" 5 None None None True sample_session cpython False,
      THEN conjunct2, THEN conjunct2, THEN conjunct2]
  have h: "(0::int) \<le> 2 \<and> (2::int) < 2 ^ 63" by simp
  have p: "\<exists>q rest.
      get_many_query 5 None None None True 2 sample_session = Inr q \<and>
      length q = min (nat 2)
        (length (filter (spec_match_many 5 (effective_str None) (effective_ids None)
                           (effective_ids None) True) (xcom_table sample_session))) \<and>
      mset (q @ rest) =
        mset (filter (spec_match_many 5 (effective_str None) (effective_ids None)
                        (effective_ids None) True) (xcom_table sample_session)) \<and>
      sorted_wrt spec_precedes (q @ rest) \<and>
      list_all2 (\<lambda>r x. XCom_init_on_load cpython False r = Inr x) q
        [sample_row 5 ''b'' (PyList [PyInt 1, PyInt 2]) 104 5,
         sample_row 4 ''a'' (PyInt 2) 103 5]"
    using h P sample_get_many_2 by blast
  have z: "XCom_get_many cpython False 5 None None None True 0 sample_session = Inr []"
    using Z by simp
  have n: "\<exists>q. get_many_query 5 None None None True (- 1) sample_session = Inr q \<and>
      mset q = mset (filter (spec_match_many 5 (effective_str None) (effective_ids None)
                        (effective_ids None) True) (xcom_table sample_session))"
  proof -
    have "- (2 ^ 63) \<le> (- 1 :: int) \<and> (- 1 :: int) < 0" by simp
    then show ?thesis using N by blast
  qed
  have v: "XCom_get_many cpython False 5 None None None True (2 ^ 63) sample_session =
     Inl (PyExc OverflowError ''Python int too large to convert to SQLite INTEGER'')"
    using V by simp
  show ?thesis
    by (insert h sample_get_many_2 p z n v, elim conjE, intro conjI; assumption)
qed

text \<open>
  C9 as stated fails for a negative limit: on SQLite it means no bound, and \<open>get_many\<close>
  returns all five matching rows of the sample table.
\<close>

theorem get_many_negative_limit_counterexample:
  "XCom_get_many cpython False 5 None None None True (- 1) sample_session =
     Inr [sample_row 5 ''b'' (PyList [PyInt 1, PyInt 2]) 104 5,
          sample_row 4 ''a'' (PyInt 2) 103 5,
          sample_row 3 ''a'' (PyInt 1) 102 5,
          sample_row 2 ''a'' (PyInt 2) 101 4,
          sample_row 1 ''a'' (PyInt 1) 100 3] \<and>
   XCom_get_many cpython False 5 None None None True (- 1) sample_session \<noteq> Inr []"
  by (simp add: sample_get_many_negative)

text \<open>
  C10. An empty string given for \<open>key\<close>, \<open>task_id\<close> or \<open>dag_id\<close>, or for \<open>task_ids\<close> or
  \<open>dag_ids\<close>, and an empty collection given for \<open>task_ids\<close> or \<open>dag_ids\<close>, have the effect
  of leaving the argument out: the call equals the call without the argument. The rows
  chosen from are then the rows that match the other filters, whatever they hold in that
  column: they are the rows of the query of \<open>get_one\<close>, and when the limit is not below the
  size of the table each of them has its loaded instance in the result of \<open>get_many\<close>, which
  returns a result whenever the limit fits 64 bits and the rows of the table can be loaded.
\<close>

theorem falsy_filter_is_omitted:
  "XCom_get_one lib f ed (Some []) task_id dag_id ip st =
     XCom_get_one lib f ed None task_id dag_id ip st \<and>
   XCom_get_one lib f ed key (Some []) dag_id ip st = XCom_get_one lib f ed key None dag_id ip st \<and>
   XCom_get_one lib f ed key task_id (Some []) ip st = XCom_get_one lib f ed key task_id None ip st \<and>
   XCom_get_many lib f ed (Some []) task_ids dag_ids ip limit st =
     XCom_get_many lib f ed None task_ids dag_ids ip limit st \<and>
   XCom_get_many lib f ed key (Some (IdStr [])) dag_ids ip limit st =
     XCom_get_many lib f ed key None dag_ids ip limit st \<and>
   XCom_get_many lib f ed key (Some (IdSeq [])) dag_ids ip limit st =
     XCom_get_many lib f ed key None dag_ids ip limit st \<and>
   XCom_get_many lib f ed key task_ids (Some (IdStr [])) ip limit st =
     XCom_get_many lib f ed key task_ids None ip limit st \<and>
   XCom_get_many lib f ed key task_ids (Some (IdSeq [])) ip limit st =
     XCom_get_many lib f ed key task_ids None ip limit st \<and>
   set (get_one_query ed (Some []) task_id dag_id ip st) =
     {r \<in> set (xcom_table st).
        spec_match_one ed None (effective_str task_id) (effective_str dag_id) ip r} \<and>
   set (get_one_query ed key (Some []) dag_id ip st) =
     {r \<in> set (xcom_table st).
        spec_match_one ed (effective_str key) None (effective_str dag_id) ip r} \<and>
   set (get_one_query ed key task_id (Some []) ip st) =
     {r \<in> set (xcom_table st).
        spec_match_one ed (effective_str key) (effective_str task_id) None ip r} \<and>
   (int (length (xcom_table st)) \<le> limit \<and> limit < 2 ^ 63 \<longrightarrow>
      (\<forall>rs. XCom_get_many lib f ed (Some []) task_ids dag_ids ip limit st = Inr rs \<longrightarrow>
         (\<forall>r\<in>set (xcom_table st).
            spec_match_many ed None (effective_ids task_ids) (effective_ids dag_ids) ip r \<longrightarrow>
            (\<exists>x\<in>set rs. XCom_init_on_load lib f r = Inr x))) \<and>
      (\<forall>e rs. (e = Some (IdStr []) \<or> e = Some (IdSeq [])) \<and>
         XCom_get_many lib f ed key e dag_ids ip limit st = Inr rs \<longrightarrow>
         (\<forall>r\<in>set (xcom_table st).
            spec_match_many ed (effective_str key) None (effective_ids dag_ids) ip r \<longrightarrow>
            (\<exists>x\<in>set rs. XCom_init_on_load lib f r = Inr x))) \<and>
      (\<forall>e rs. (e = Some (IdStr []) \<or> e = Some (IdSeq [])) \<and>
         XCom_get_many lib f ed key task_ids e ip limit st = Inr rs \<longrightarrow>
         (\<forall>r\<in>set (xcom_table st).
            spec_match_many ed (effective_str key) (effective_ids task_ids) None ip r \<longrightarrow>
            (\<exists>x\<in>set rs. XCom_init_on_load lib f r = Inr x)))) \<and>
   (- (2 ^ 63) \<le> limit \<and> limit < 2 ^ 63 \<and>
    list_all (\<lambda>r. \<exists>x. XCom_init_on_load lib f r = Inr x) (xcom_table st) \<longrightarrow>
      (\<exists>rs. XCom_get_many lib f ed key task_ids dag_ids ip limit st = Inr rs))"
proof -
  have eqs: "XCom_get_one lib f ed (Some []) task_id dag_id ip st =
     XCom_get_one lib f ed None task_id dag_id ip st \<and>
   XCom_get_one lib f ed key (Some []) dag_id ip st = XCom_get_one lib f ed key None dag_id ip st \<and>
   XCom_get_one lib f ed key task_id (Some []) ip st = XCom_get_one lib f ed key task_id None ip st \<and>
   XCom_get_many lib f ed (Some []) task_ids dag_ids ip limit st =
     XCom_get_many lib f ed None task_ids dag_ids ip limit st \<and>
   XCom_get_many lib f ed key (Some (IdStr [])) dag_ids ip limit st =
     XCom_get_many lib f ed key None dag_ids ip limit st \<and>
   XCom_get_many lib f ed key (Some (IdSeq [])) dag_ids ip limit st =
     XCom_get_many lib f ed key None dag_ids ip limit st \<and>
   XCom_get_many lib f ed key task_ids (Some (IdStr [])) ip limit st =
     XCom_get_many lib f ed key task_ids None ip limit st \<and>
   XCom_get_many lib f ed key task_ids (Some (IdSeq [])) ip limit st =
     XCom_get_many lib f ed key task_ids None ip limit st"
    by (simp add: XCom_get_one_def XCom_get_many_def get_one_query_def get_many_query_def
          get_one_filters_def get_many_filters_def truthy_str_def truthy_ids_def)
  have n: "effective_str (Some []) = None" "effective_ids (Some (IdStr [])) = None"
    "effective_ids (Some (IdSeq [])) = None"
    by (simp_all add: effective_str_def effective_ids_def truthy_str_def truthy_ids_def)
  have one: "set (get_one_query ed (Some []) task_id dag_id ip st) =
     {r \<in> set (xcom_table st).
        spec_match_one ed None (effective_str task_id) (effective_str dag_id) ip r} \<and>
   set (get_one_query ed key (Some []) dag_id ip st) =
     {r \<in> set (xcom_table st).
        spec_match_one ed (effective_str key) None (effective_str dag_id) ip r} \<and>
   set (get_one_query ed key task_id (Some []) ip st) =
     {r \<in> set (xcom_table st).
        spec_match_one ed (effective_str key) (effective_str task_id) None ip r}"
    by (simp only: get_one_query_set n)
  have many: "(int (length (xcom_table st)) \<le> limit \<and> limit < 2 ^ 63 \<longrightarrow>
      (\<forall>rs. XCom_get_many lib f ed (Some []) task_ids dag_ids ip limit st = Inr rs \<longrightarrow>
         (\<forall>r\<in>set (xcom_table st).
            spec_match_many ed None (effective_ids task_ids) (effective_ids dag_ids) ip r \<longrightarrow>
            (\<exists>x\<in>set rs. XCom_init_on_load lib f r = Inr x))) \<and>
      (\<forall>e rs. (e = Some (IdStr []) \<or> e = Some (IdSeq [])) \<and>
         XCom_get_many lib f ed key e dag_ids ip limit st = Inr rs \<longrightarrow>
         (\<forall>r\<in>set (xcom_table st).
            spec_match_many ed (effective_str key) None (effective_ids dag_ids) ip r \<longrightarrow>
            (\<exists>x\<in>set rs. XCom_init_on_load lib f r = Inr x))) \<and>
      (\<forall>e rs. (e = Some (IdStr []) \<or> e = Some (IdSeq [])) \<and>
         XCom_get_many lib f ed key task_ids e ip limit st = Inr rs \<longrightarrow>
         (\<forall>r\<in>set (xcom_table st).
            spec_match_many ed (effective_str key) (effective_ids task_ids) None ip r \<longrightarrow>
            (\<exists>x\<in>set rs. XCom_init_on_load lib f r = Inr x))))"
  proof (intro impI conjI allI ballI)
    fix rs r
    assume l: "int (length (xcom_table st)) \<le> limit \<and> limit < 2 ^ 63"
      and a: "XCom_get_many lib f ed (Some []) task_ids dag_ids ip limit st = Inr rs"
      and r: "r \<in> set (xcom_table st)"
      and d: "spec_match_many ed None (effective_ids task_ids) (effective_ids dag_ids) ip r"
    have l1: "int (length (xcom_table st)) \<le> limit \<or> limit < 0" using l by simp
    have "(0::int) \<le> int (length (xcom_table st))" by simp
    with l have "0 \<le> limit" by linarith
    then have l2: "- (2 ^ 63) \<le> limit" by simp
    have l3: "limit < 2 ^ 63" using l by simp
    show "\<exists>x\<in>set rs. XCom_init_on_load lib f r = Inr x"
      using XCom_get_many_complete [OF l1 l2 l3 a r] d by (simp add: n)
  next
    fix e rs r
    assume l: "int (length (xcom_table st)) \<le> limit \<and> limit < 2 ^ 63"
      and h: "(e = Some (IdStr []) \<or> e = Some (IdSeq [])) \<and>
         XCom_get_many lib f ed key e dag_ids ip limit st = Inr rs"
      and r: "r \<in> set (xcom_table st)"
      and d: "spec_match_many ed (effective_str key) None (effective_ids dag_ids) ip r"
    have l1: "int (length (xcom_table st)) \<le> limit \<or> limit < 0" using l by simp
    have "(0::int) \<le> int (length (xcom_table st))" by simp
    with l have "0 \<le> limit" by linarith
    then have l2: "- (2 ^ 63) \<le> limit" by simp
    have l3: "limit < 2 ^ 63" using l by simp
    have a: "XCom_get_many lib f ed key e dag_ids ip limit st = Inr rs" using h by simp
    have "effective_ids e = None" using h n by auto
    then show "\<exists>x\<in>set rs. XCom_init_on_load lib f r = Inr x"
      using XCom_get_many_complete [OF l1 l2 l3 a r] d by simp
  next
    fix e rs r
    assume l: "int (length (xcom_table st)) \<le> limit \<and> limit < 2 ^ 63"
      and h: "(e = Some (IdStr []) \<or> e = Some (IdSeq [])) \<and>
         XCom_get_many lib f ed key task_ids e ip limit st = Inr rs"
      and r: "r \<in> set (xcom_table st)"
      and d: "spec_match_many ed (effective_str key) (effective_ids task_ids) None ip r"
    have l1: "int (length (xcom_table st)) \<le> limit \<or> limit < 0" using l by simp
    have "(0::int) \<le> int (length (xcom_table st))" by simp
    with l have "0 \<le> limit" by linarith
    then have l2: "- (2 ^ 63) \<le> limit" by simp
    have l3: "limit < 2 ^ 63" using l by simp
    have a: "XCom_get_many lib f ed key task_ids e ip limit st = Inr rs" using h by simp
    have "effective_ids e = None" using h n by auto
    then show "\<exists>x\<in>set rs. XCom_init_on_load lib f r = Inr x"
      using XCom_get_many_complete [OF l1 l2 l3 a r] d by simp
  qed
  have tot: "(- (2 ^ 63) \<le> limit \<and> limit < 2 ^ 63 \<and>
    list_all (\<lambda>r. \<exists>x. XCom_init_on_load lib f r = Inr x) (xcom_table st) \<longrightarrow>
      (\<exists>rs. XCom_get_many lib f ed key task_ids dag_ids ip limit st = Inr rs))"
    using XCom_get_many_total [of limit lib f st ed key task_ids dag_ids ip] by blast
  show ?thesis
    by (insert eqs one many tot, elim conjE, intro conjI; assumption)
qed

text \<open>On the second sample table, whose rows differ in key, task and pipeline,
  \<open>get_many\<close> with an empty key, an empty collection of tasks and an empty pipeline returns
  all three rows, as it does with the three arguments left out; \<open>get_one\<close> with key \<open>b\<close> and
  empty \<open>task_id\<close> and \<open>dag_id\<close> returns the payload of row 2, of task \<open>t2\<close>. On the first
  table \<open>get_one\<close> with the empty key returns the payload of row 5, whose key is \<open>b\<close>.\<close>

theorem falsy_filter_is_omitted_witness:
  "XCom_get_many cpython False 5 (Some []) (Some (IdSeq [])) (Some (IdStr [])) False 100
     mixed_session =
     Inr [mixed_row 3 ''a'' ''t1'' ''d2'' (PyInt 1) 102,
          mixed_row 2 ''b'' ''t2'' ''d1'' (PyInt 2) 101,
          mixed_row 1 ''a'' ''t1'' ''d1'' (PyInt 1) 100] \<and>
   XCom_get_many cpython False 5 None None None False 100 mixed_session =
     Inr [mixed_row 3 ''a'' ''t1'' ''d2'' (PyInt 1) 102,
          mixed_row 2 ''b'' ''t2'' ''d1'' (PyInt 2) 101,
          mixed_row 1 ''a'' ''t1'' ''d1'' (PyInt 1) 100] \<and>
   fst (XCom_get_one cpython False 5 (Some ''b'') (Some []) (Some []) False mixed_session) =
     Inr (PyInt 2) \<and>
   fst (XCom_get_one cpython False 5 (Some ''b'') None None False mixed_session) =
     Inr (PyInt 2) \<and>
   fst (XCom_get_one cpython False 5 (Some []) None None True sample_session) =
     Inr (PyList [PyInt 1, PyInt 2])"
proof -
  have g: "fst (XCom_get_one cpython False 5 None None None True sample_session) =
     Inr (PyList [PyInt 1, PyInt 2])"
    by (simp add: XCom_get_one_def sample_get_one_query_prior sample_ordered query_first_def
          sample_row_def cpython_get_one_deserialize_json)
  have e: "XCom_get_one cpython False 5 (Some []) None None True sample_session =
     XCom_get_one cpython False 5 None None None True sample_session"
    by (rule falsy_filter_is_omitted [THEN conjunct1])
  have m1: "XCom_get_many cpython False 5 (Some []) (Some (IdSeq [])) (Some (IdStr [])) False 100
     mixed_session =
     XCom_get_many cpython False 5 None (Some (IdSeq [])) (Some (IdStr [])) False 100 mixed_session"
    by (rule falsy_filter_is_omitted
          [THEN conjunct2, THEN conjunct2, THEN conjunct2, THEN conjunct1])
  have m2: "XCom_get_many cpython False 5 None (Some (IdSeq [])) (Some (IdStr [])) False 100
     mixed_session =
     XCom_get_many cpython False 5 None None (Some (IdStr [])) False 100 mixed_session"
    by (rule falsy_filter_is_omitted
          [THEN conjunct2, THEN conjunct2, THEN conjunct2, THEN conjunct2, THEN conjunct2,
           THEN conjunct1])
  have m3: "XCom_get_many cpython False 5 None None (Some (IdStr [])) False 100 mixed_session =
     XCom_get_many cpython False 5 None None None False 100 mixed_session"
    by (rule falsy_filter_is_omitted
          [THEN conjunct2, THEN conjunct2, THEN conjunct2, THEN conjunct2, THEN conjunct2,
           THEN conjunct2, THEN conjunct1])
  have o1: "XCom_get_one cpython False 5 (Some ''b'') (Some []) (Some []) False mixed_session =
     XCom_get_one cpython False 5 (Some ''b'') None (Some []) False mixed_session"
    by (rule falsy_filter_is_omitted [THEN conjunct2, THEN conjunct1])
  have o2: "XCom_get_one cpython False 5 (Some ''b'') None (Some []) False mixed_session =
     XCom_get_one cpython False 5 (Some ''b'') None None False mixed_session"
    by (rule falsy_filter_is_omitted [THEN conjunct2, THEN conjunct2, THEN conjunct1])
  have a: "XCom_get_many cpython False 5 None None None False 100 mixed_session =
     Inr [mixed_row 3 ''a'' ''t1'' ''d2'' (PyInt 1) 102,
          mixed_row 2 ''b'' ''t2'' ''d1'' (PyInt 2) 101,
          mixed_row 1 ''a'' ''t1'' ''d1'' (PyInt 1) 100]"
    using mixed_get_many_empty_filters by (simp only: m1 m2 m3)
  have b: "fst (XCom_get_one cpython False 5 (Some ''b'') None None False mixed_session) =
     Inr (PyInt 2)"
    using mixed_get_one_empty_filters by (simp only: o1 o2)
  have c: "fst (XCom_get_one cpython False 5 (Some []) None None True sample_session) =
     Inr (PyList [PyInt 1, PyInt 2])"
    using g by (simp only: e)
  show ?thesis
    using mixed_get_many_empty_filters a mixed_get_one_empty_filters b c
    by (intro conjI)
qed

end
